theory Spec2Isabelle
  imports Complex_Main
begin

section \<open>The in-process bot engine (class BotService)\<close>

text \<open>
  The model follows the TypeScript class \<open>BotService\<close>. JavaScript numbers that hold
  step counts, refs and epoch times are \<open>int\<close>; money read from JSON is \<open>rat\<close>.
  A numeric setting is kept as the value \<open>Number(...)\<close> yields for it, with \<open>None\<close>
  for a value that is not finite (\<open>Number.isFinite\<close> false). The settings screen offers
  only integer options for the step settings (reset martingale: -1, 0..10), so those are
  \<open>int option\<close>. Log, error and refresh events to listeners are not modelled; status
  events, frames written to the two sockets, the item kept in persistent storage and
  the queued Fast re-entries are, as trace fields of the state. Timer handles, the
  listener table and the last socket error are left out.
\<close>

subsection \<open>Data\<close>

datatype trend = Call | Put

datatype wallet = WReal | WDemo

datatype strategy = Signal | Fast | Momentum | Flash5st

datatype bot_status = Idle | Starting | Running | Stopped | Failed

datatype outcome = Win | Loss | Tie

datatype resume_reason = NONE | UNCLOSED_BID | LAST_BID_LOST | LAST_BID_WON_IN_SWITCH_DEMO

text \<open>
  A field read through \<open>safeNumber\<close>: absent, \<open>null\<close>, a value whose \<open>Number(...)\<close> is
  not finite, or one whose \<open>Number(...)\<close> is the given finite number.
\<close>

datatype jsfield = Undefined | Null | NotFinite | Num rat

text \<open>The messages passed to \<open>stop\<close>.\<close>

datatype stop_message = MsgStopLoss int | MsgStopProfit | MsgSaldoTidakCukup | MsgBotDihentikan

record OpenedBid =
  assetRic :: string
  closeAt :: string
  openRate :: rat
  trend :: trend
  uuid :: "string option"
  amount :: "rat option"
  payment :: "rat option"
  dealType :: wallet

record TradeConfig =
  asset :: string
  strategy :: strategy
  interval :: "int option"
  bidAmountIdr :: "jsfield"
  bidAmountUsd :: "jsfield"
  bidAmountEur :: "jsfield"
  bidAmount :: "jsfield"
  autoSwitchDemo :: bool
  martingale :: "rat option"
  maxMartingale :: "int option"
  resetMartingale :: "int option"
  stopLoss :: "int option"
  stopProfitAfter :: "rat option"

text \<open>The item stored under \<open>bot_state\<close> (type \<open>BotState\<close>), as \<open>loadBotState\<close> reads it.\<close>

record BotState =
  lastStep :: "int option"
  lastWasSwitchDemo :: bool
  lastTrend :: "trend option"
  lastAmount :: "int option"

datatype stored_item = NoItem | Unparsable | Item BotState

text \<open>
  What \<open>created_at\<close> of a deal is to the code: absent, \<open>null\<close> or empty (falsy, so the
  deal is filtered out), a value \<open>new Date\<close> cannot parse (kept; its time is \<open>NaN\<close>), or
  a date, as epoch milliseconds.
\<close>

datatype jsdate = NoDate | InvalidDate | DateAt int

record DealItem =
  d_status :: "string option"
  d_created_at :: jsdate
  d_win :: jsfield

record DealsResponse =
  data_standard_trade_deals :: "DealItem list option"
  standard_trade_deals :: "DealItem list option"
  data_deals :: "DealItem list option"
  deals :: "DealItem list option"

datatype settled = Rejected | Fulfilled DealsResponse

record ResumeState =
  shouldResume :: bool
  resumeStep :: int
  reason :: resume_reason
  lastDeal :: "DealItem option"

text \<open>Frames written to a socket: the bid-create message and the connection ping.\<close>

datatype channel = StreamSocket | TradeSocket

record bid_create =
  created_at :: int
  expire_at :: "int option"
  ric :: string
  deal_type :: wallet
  blitz :: bool
  bc_trend :: trend
  bc_amount :: int
  ref :: int
  join_ref :: int

datatype frame = Create bid_create | Ping int "int option"

text \<open>Inbound payloads, field by field as the handlers read them.\<close>

record opened_item =
  o_uuid :: "string option"
  o_asset_ric :: "string option"
  o_ric :: "string option"
  o_close_quote_created_at :: "string option"
  o_finished_at :: "string option"
  o_open_rate :: "rat option"
  o_openRate :: "rat option"
  o_trend_is_put :: bool
  o_amount :: jsfield
  o_payment :: jsfield
  o_deal_type_is_real :: "bool option"

record batch_payload =
  b_ric :: "string option"
  b_asset_ric :: "string option"
  b_finished_at :: "string option"
  b_end_rate :: "rat option"
  b_close_rate :: "rat option"

datatype socket_event =
    PhxReplyBo "string option"
  | Opened opened_item
  | CloseDealBatch batch_payload
  | BalanceChanged string rat
  | OtherEvent

record engine =
  nativeEnabled :: bool
  status :: bot_status
  config :: TradeConfig
  pendingUUIDs :: "string list"
  openedBids :: "OpenedBid list"
  processedBatches :: "string list"
  martingaleStep :: int
  lossStreak :: int
  totalProfit :: rat
  balanceReal :: rat
  balanceDemo :: rat
  userCurrency :: string
  currentWalletType :: wallet
  forceDemo :: bool
  allowAutoSwitch :: bool
  nextRef :: int
  joinRefs :: "(string \<times> int) list"
  lastBidStep :: int
  lastBidWasSwitchDemo :: bool
  cooldownActive :: bool
  cooldownCount :: int
  cooldownMax :: int
  shouldUseSignal :: bool
  repeatStep :: int
  lastSignalTrend :: "trend option"
  pendingResumeState :: "ResumeState option"
  tradeReady :: bool
  streamReady :: bool
  tradeConnected :: bool
  streamConnected :: bool
  lastFastBidTrend :: "trend option"
  fastRepeatTrend :: "trend option"
  bidInFlightUntil :: "int option"
  switchDemoActive :: bool
  switchDemoStep :: "int option"
  switchDemoReturnWallet :: "wallet option"
  disableRepeatAfterDemo :: bool
  skipStopLossOnce :: bool
  profitReal :: rat
  profitDemo :: rat
  lastBidAt :: int
  lastBidAmount :: "int option"
  tradeSocket :: "nat option"
  streamSocket :: "nat option"
  stored :: stored_item
  sent :: "(channel \<times> frame) list"
  statusEvents :: "(bot_status \<times> stop_message) list"
  fastReentries :: "trend list"

subsection \<open>Small helpers\<close>

text \<open>\<open>safeNumber\<close>: \<open>Number(undefined)\<close> is NaN (so \<open>null\<close> is returned), \<open>Number(null)\<close> is 0.\<close>

fun safeNumber :: "jsfield \<Rightarrow> rat option" where
  "safeNumber Undefined = None"
| "safeNumber Null = Some 0"
| "safeNumber NotFinite = None"
| "safeNumber (Num r) = Some r"

text \<open>The operator \<open>??\<close>: the left operand unless it is \<open>null\<close> or \<open>undefined\<close>.\<close>

fun nullish :: "'a option \<Rightarrow> 'a \<Rightarrow> 'a" where
  "nullish None d = d"
| "nullish (Some v) d = v"

fun nullishField :: "jsfield \<Rightarrow> jsfield \<Rightarrow> jsfield" where
  "nullishField (Num r) d = Num r"
| "nullishField Undefined d = d"
| "nullishField Null d = d"
| "nullishField NotFinite d = NotFinite"

definition WS_OPEN :: nat where
  "WS_OPEN = 1"

definition MAX_K_STEP :: int where
  "MAX_K_STEP = 100"

text \<open>A JavaScript \<open>Set\<close> of strings keeps insertion order: \<open>add\<close> appends a new element.\<close>

definition setAdd :: "string \<Rightarrow> string list \<Rightarrow> string list" where
  "setAdd k xs = (if k \<in> set xs then xs else xs @ [k])"

definition setDelete :: "string \<Rightarrow> string list \<Rightarrow> string list" where
  "setDelete k xs = filter (\<lambda>x. x \<noteq> k) xs"

definition resolveOutcome :: "trend \<Rightarrow> rat \<Rightarrow> rat \<Rightarrow> outcome" where
  "resolveOutcome t openR closeR =
     (if closeR = openR then Tie
      else if t = Call then (if closeR > openR then Win else Loss)
      else (if closeR < openR then Win else Loss))"

subsection \<open>Stopping, persistence, cooldown\<close>

definition resetConnectionState :: "engine \<Rightarrow> engine" where
  "resetConnectionState s =
     s\<lparr>tradeReady := False, streamReady := False,
       tradeConnected := False, streamConnected := False\<rparr>"

definition teardownSockets :: "engine \<Rightarrow> engine" where
  "teardownSockets s = s\<lparr>tradeSocket := None, streamSocket := None\<rparr>"

text \<open>
  \<open>stop\<close>: with the native engine enabled the call only asks the native side to stop, and
  the status changes later, when that promise resolves; the in-process state is untouched.
\<close>

definition stop :: "stop_message \<Rightarrow> engine \<Rightarrow> engine" where
  "stop msg s =
     (if nativeEnabled s then s
      else teardownSockets (resetConnectionState
        (s\<lparr>status := Stopped,
           statusEvents := statusEvents s @ [(Stopped, msg)],
           pendingUUIDs := [],
           openedBids := [],
           processedBatches := []\<rparr>)))"

definition persistBotState :: "engine \<Rightarrow> engine" where
  "persistBotState s =
     s\<lparr>stored := Item \<lparr>lastStep = Some (lastBidStep s),
                         lastWasSwitchDemo = lastBidWasSwitchDemo s,
                         lastTrend = lastSignalTrend s,
                         lastAmount = lastBidAmount s\<rparr>\<rparr>"

definition applyCooldown :: "engine \<Rightarrow> engine" where
  "applyCooldown s =
     (if strategy (config s) \<noteq> Momentum \<and> strategy (config s) \<noteq> Flash5st then s
      else s\<lparr>cooldownActive := True, cooldownCount := 1\<rparr>)"

text \<open>
  \<open>queueFastReentry\<close> returns at once unless the bot is running; otherwise it awaits the
  candle fetch, and the bid it sends afterwards is a later task. The queued call is
  recorded with its fallback trend.
\<close>

definition queueFastReentry :: "trend \<Rightarrow> engine \<Rightarrow> engine" where
  "queueFastReentry t s =
     (if status s \<noteq> Running then s else s\<lparr>fastReentries := fastReentries s @ [t]\<rparr>)"

subsection \<open>Risk rules\<close>

definition getCurrentProfit :: "engine \<Rightarrow> rat" where
  "getCurrentProfit s =
     (let w = (if forceDemo s then WDemo else currentWalletType s)
      in if w = WDemo then profitDemo s else profitReal s)"

definition shouldSwitchToDemo :: "engine \<Rightarrow> bool" where
  "shouldSwitchToDemo s =
     (autoSwitchDemo (config s) \<and> currentWalletType s = WReal \<and> \<not> switchDemoActive s)"

text \<open>The second block of \<open>applyRiskRules\<close>: the stop-profit check.\<close>

definition stopProfitCheck :: "engine \<Rightarrow> engine" where
  "stopProfitCheck s =
     (case stopProfitAfter (config s) of
        None \<Rightarrow> s
      | Some spa \<Rightarrow>
          if spa > 0 then
            (if getCurrentProfit s \<ge> spa * 100 then stop MsgStopProfit s else s)
          else s)"

definition stopLossReached :: "engine \<Rightarrow> bool" where
  "stopLossReached s =
     (\<not> switchDemoActive s \<and>
      (case stopLoss (config s) of
         None \<Rightarrow> False
       | Some sl \<Rightarrow> sl > 0 \<and> martingaleStep s > sl))"

definition applyRiskRules :: "engine \<Rightarrow> engine" where
  "applyRiskRules s =
     (if skipStopLossOnce s then stopProfitCheck (s\<lparr>skipStopLossOnce := False\<rparr>)
      else if stopLossReached s then
        (if shouldSwitchToDemo s \<and> allowAutoSwitch s then
           persistBotState
             (s\<lparr>switchDemoReturnWallet := Some WReal,
                currentWalletType := WDemo,
                forceDemo := True,
                switchDemoActive := True,
                switchDemoStep := Some (martingaleStep s),
                allowAutoSwitch := False,
                lastBidWasSwitchDemo := True\<rparr>)
         else if \<not> autoSwitchDemo (config s) then stop (MsgStopLoss (martingaleStep s)) s
         else stopProfitCheck s)
      else stopProfitCheck s)"

subsection \<open>Socket events\<close>

text \<open>The \<open>phx_reply\<close> on topic \<open>bo\<close>: the uuid joins the pending set, trimmed past 20.\<close>

definition handlePhxReply :: "string option \<Rightarrow> engine \<Rightarrow> engine" where
  "handlePhxReply u s =
     (let s1 = (case u of
                  None \<Rightarrow> s
                | Some v \<Rightarrow>
                    if v = [] then s
                    else (let p = setAdd v (pendingUUIDs s)
                          in s\<lparr>pendingUUIDs := (if length p > 20 then drop 10 p else p)\<rparr>))
      in s1\<lparr>bidInFlightUntil := None\<rparr>)"

definition openedBidOf :: "opened_item \<Rightarrow> engine \<Rightarrow> OpenedBid" where
  "openedBidOf item s =
     (let u = nullish (o_uuid item) []
      in \<lparr>assetRic = nullish (o_asset_ric item) (nullish (o_ric item) []),
          closeAt = nullish (o_close_quote_created_at item) (nullish (o_finished_at item) []),
          openRate = nullish (o_open_rate item) (nullish (o_openRate item) 0),
          trend = (if o_trend_is_put item then Put else Call),
          uuid = (if u = [] then None else Some u),
          amount = safeNumber (o_amount item),
          payment = safeNumber (o_payment item),
          dealType =
            (if nullish (o_deal_type_is_real item) (currentWalletType s = WReal)
             then WReal else WDemo)\<rparr>)"

text \<open>\<open>openedBids.push(bid)\<close>, then \<open>shift()\<close> once the list is longer than 50.\<close>

definition pushOpenedBid :: "OpenedBid \<Rightarrow> OpenedBid list \<Rightarrow> OpenedBid list" where
  "pushOpenedBid bid bids =
     (let xs = bids @ [bid] in if length xs > 50 then tl xs else xs)"

definition handleOpened :: "opened_item \<Rightarrow> engine \<Rightarrow> engine" where
  "handleOpened item s =
     (let u = nullish (o_uuid item) []
      in if u \<noteq> [] \<and> u \<notin> set (pendingUUIDs s) then s
         else
           (let s1 = (if u \<noteq> [] then s\<lparr>pendingUUIDs := setDelete u (pendingUUIDs s)\<rparr> else s);
                s2 = s1\<lparr>bidInFlightUntil := None\<rparr>;
                bid = openedBidOf item s2
            in if assetRic bid \<noteq> [] \<and> closeAt bid \<noteq> [] then
                 s2\<lparr>openedBids := pushOpenedBid bid (openedBids s2)\<rparr>
               else s2))"

text \<open>One pass of the loop over the matching bids in \<open>handleCloseDealBatch\<close>.\<close>

definition settleWin :: "engine \<Rightarrow> engine" where
  "settleWin s =
     (if switchDemoActive s then
        applyCooldown
          (s\<lparr>switchDemoActive := False,
             switchDemoStep := None,
             forceDemo := False,
             currentWalletType := nullish (switchDemoReturnWallet s) WReal,
             switchDemoReturnWallet := None,
             allowAutoSwitch := True,
             lastBidWasSwitchDemo := False,
             martingaleStep := nullish (switchDemoStep s) (martingaleStep s),
             repeatStep := 0,
             disableRepeatAfterDemo := True,
             skipStopLossOnce := True\<rparr>)
      else
        applyCooldown
          (s\<lparr>lossStreak := 0,
             martingaleStep := 0,
             repeatStep := 0,
             shouldUseSignal := True,
             allowAutoSwitch := True,
             disableRepeatAfterDemo := False\<rparr>))"

definition lossMartingale :: "engine \<Rightarrow> engine" where
  "lossMartingale s =
     (case resetMartingale (config s) of
        Some rm \<Rightarrow>
          if rm = 0 then s\<lparr>martingaleStep := 0\<rparr>
          else if rm > 0 \<and> martingaleStep s \<ge> rm then
            applyCooldown
              (s\<lparr>martingaleStep := 0, lossStreak := 0, repeatStep := 0,
                 shouldUseSignal := True\<rparr>)
          else s\<lparr>martingaleStep := martingaleStep s + 1\<rparr>
      | None \<Rightarrow> s\<lparr>martingaleStep := martingaleStep s + 1\<rparr>)"

definition lossRepeat :: "engine \<Rightarrow> engine" where
  "lossRepeat s =
     (let s1 = (case maxMartingale (config s) of
                  Some m \<Rightarrow>
                    if m > 0 then
                      (if repeatStep s < m then s\<lparr>repeatStep := repeatStep s + 1\<rparr>
                       else s\<lparr>repeatStep := 0\<rparr>)
                    else s\<lparr>repeatStep := 0\<rparr>
                | None \<Rightarrow> s\<lparr>repeatStep := 0\<rparr>);
          s2 = (if disableRepeatAfterDemo s1 then s1\<lparr>repeatStep := 0\<rparr> else s1)
      in s2\<lparr>shouldUseSignal := (repeatStep s2 = 0)\<rparr>)"

definition settleLoss :: "engine \<Rightarrow> engine" where
  "settleLoss s =
     (if switchDemoActive s then s
      else
        (let s1 = s\<lparr>lossStreak := lossStreak s + 1\<rparr>;
             s2 = lossMartingale s1;
             s3 = s2\<lparr>martingaleStep := min (martingaleStep s2) MAX_K_STEP\<rparr>
         in lossRepeat s3))"

definition settleBid :: "rat \<Rightarrow> engine \<Rightarrow> OpenedBid \<Rightarrow> engine" where
  "settleBid endRate s bid =
     (let result = resolveOutcome (trend bid) (openRate bid) endRate;
          isDemoMode = (forceDemo s \<or> currentWalletType s = WDemo \<or> switchDemoActive s
                        \<or> disableRepeatAfterDemo s);
          s1 = (if strategy (config s) = Fast then
                  (if \<not> isDemoMode \<and> result = Win then s\<lparr>fastRepeatTrend := Some (trend bid)\<rparr>
                   else s\<lparr>fastRepeatTrend := None\<rparr>)
                else s);
          s2 = (if result = Win then settleWin s1
                else if result = Loss then settleLoss s1
                else s1);
          s3 = persistBotState s2
      in if status s3 = Running \<and> strategy (config s3) = Fast
         then queueFastReentry (trend bid) s3 else s3)"

definition batchRic :: "batch_payload \<Rightarrow> string" where
  "batchRic p = nullish (b_ric p) (nullish (b_asset_ric p) [])"

definition batchFinishedAt :: "batch_payload \<Rightarrow> string" where
  "batchFinishedAt p = nullish (b_finished_at p) []"

definition batchEndRate :: "batch_payload \<Rightarrow> rat" where
  "batchEndRate p = nullish (b_end_rate p) (nullish (b_close_rate p) 0)"

definition batchKey :: "batch_payload \<Rightarrow> string" where
  "batchKey p = batchRic p @ '':'' @ batchFinishedAt p"

definition matchesBatch :: "batch_payload \<Rightarrow> OpenedBid \<Rightarrow> bool" where
  "matchesBatch p bid = (assetRic bid = batchRic p \<and> closeAt bid = batchFinishedAt p)"

text \<open>
  \<open>handleCloseDealBatch\<close> up to its \<open>await\<close>: the result says whether the handler went on
  to the profit refresh (\<open>True\<close>) or returned before it.
\<close>

definition closeDealBatchSync :: "batch_payload \<Rightarrow> engine \<Rightarrow> engine \<times> bool" where
  "closeDealBatchSync p s =
     (if batchRic p = [] \<or> batchFinishedAt p = [] then (s, False)
      else if batchKey p \<in> set (processedBatches s) then (s, False)
      else
        (let pb = setAdd (batchKey p) (processedBatches s);
             s1 = s\<lparr>processedBatches := (if length pb > 100 then drop 50 pb else pb)\<rparr>;
             matching = filter (matchesBatch p) (openedBids s1)
         in if matching = [] then (s1, False)
            else
              (let s2 = s1\<lparr>openedBids := filter (\<lambda>b. \<not> matchesBatch p b) (openedBids s1)\<rparr>
               in (foldl (settleBid (batchEndRate p)) s2 matching, True))))"

text \<open>
  \<open>sendStreamPing\<close>, and \<open>refreshProfitFromApi\<close> given what the two deal-history requests
  summed to for today (demo, real); \<open>None\<close> stands for the \<open>catch\<close> branch.
\<close>

definition sendStreamPing :: "engine \<Rightarrow> engine" where
  "sendStreamPing s =
     (if streamSocket s \<noteq> Some WS_OPEN then s
      else
        (let r = nextRef s;
             j = (case map_of (joinRefs s) ''connection'' of
                    Some v \<Rightarrow> Some v
                  | None \<Rightarrow> map_of (joinRefs s) (''asset:'' @ asset (config s)));
             j' = (case j of Some v \<Rightarrow> (if v = 0 then None else Some v) | None \<Rightarrow> None)
         in s\<lparr>nextRef := r + 1, sent := sent s @ [(StreamSocket, Ping r j')]\<rparr>))"

definition refreshProfitFromApi :: "(rat \<times> rat) option \<Rightarrow> engine \<Rightarrow> engine" where
  "refreshProfitFromApi totals s =
     (case totals of
        None \<Rightarrow> s
      | Some (demoTotal, realTotal) \<Rightarrow>
          sendStreamPing
            (s\<lparr>profitDemo := demoTotal, profitReal := realTotal,
               totalProfit := demoTotal + realTotal\<rparr>))"

definition handleCloseDealBatch :: "(rat \<times> rat) option \<Rightarrow> batch_payload \<Rightarrow> engine \<Rightarrow> engine" where
  "handleCloseDealBatch totals p s =
     (let (s1, continues) = closeDealBatchSync p s
      in if continues then applyRiskRules (refreshProfitFromApi totals s1) else s1)"

definition handleBalanceChanged :: "string \<Rightarrow> rat \<Rightarrow> engine \<Rightarrow> engine" where
  "handleBalanceChanged accountType balance s =
     (let s1 = (if accountType = ''real'' then s\<lparr>balanceReal := balance\<rparr> else s)
      in if accountType = ''demo'' then s1\<lparr>balanceDemo := balance\<rparr> else s1)"

text \<open>
  \<open>handleSocketEvent\<close>: a settlement batch runs the synchronous part of its handler;
  the rest runs when the profit refresh has answered.
\<close>

fun handleSocketEvent :: "engine \<Rightarrow> socket_event \<Rightarrow> engine" where
  "handleSocketEvent s (PhxReplyBo u) = handlePhxReply u s"
| "handleSocketEvent s (Opened item) = handleOpened item s"
| "handleSocketEvent s (CloseDealBatch p) = fst (closeDealBatchSync p s)"
| "handleSocketEvent s (BalanceChanged a b) = handleBalanceChanged a b s"
| "handleSocketEvent s OtherEvent = s"

subsection \<open>Bid sizing\<close>

definition MIN_BID_BY_CURRENCY :: "(string \<times> int) list" where
  "MIN_BID_BY_CURRENCY = [(''IDR'', 14000), (''USD'', 1), (''EUR'', 1)]"

definition MAX_BID_BY_CURRENCY :: "(string \<times> int) list" where
  "MAX_BID_BY_CURRENCY = [(''IDR'', 74000000), (''USD'', 5000), (''EUR'', 4600)]"

definition minBidOf :: "string \<Rightarrow> int" where
  "minBidOf currency = nullish (map_of MIN_BID_BY_CURRENCY currency) 14000 * 100"

definition maxBidOf :: "string \<Rightarrow> int" where
  "maxBidOf currency = nullish (map_of MAX_BID_BY_CURRENCY currency) 74000000 * 100"

text \<open>\<open>toUpperCase\<close> on ASCII letters (currency codes are ASCII).\<close>

definition upperChar :: "char \<Rightarrow> char" where
  "upperChar c =
     (let n = (of_char c :: nat) in if 97 \<le> n \<and> n \<le> 122 then char_of (n - 32) else c)"

definition toUpperCase :: "string \<Rightarrow> string" where
  "toUpperCase = map upperChar"

text \<open>
  The \<open>while\<close> loop of \<open>splitBidAmounts\<close>. Nothing in the loop itself bounds the number
  of rounds (with \<open>maxBid = 0\<close> it never ends), so not returning is the value \<open>None\<close>.
\<close>

partial_function (option) splitLoop :: "int \<Rightarrow> int \<Rightarrow> int \<Rightarrow> int list \<Rightarrow> int list option" where
  "splitLoop remaining minBid maxBid chunks =
     (if remaining > 0 then
        (if remaining \<le> maxBid then Some (chunks @ [remaining])
         else splitLoop
                (remaining -
                  (if remaining - maxBid > 0 \<and> remaining - maxBid < minBid
                   then remaining - minBid else maxBid))
                minBid maxBid
                (chunks @
                  [if remaining - maxBid > 0 \<and> remaining - maxBid < minBid
                   then remaining - minBid else maxBid]))
      else Some chunks)"

declare splitLoop.simps [code]

definition splitBidAmounts :: "int \<Rightarrow> int \<Rightarrow> int \<Rightarrow> int list option" where
  "splitBidAmounts tot minBid maxBid =
     (if tot \<le> maxBid then Some [tot] else splitLoop tot minBid maxBid [])"

definition getBidAmountForCurrency :: "engine \<Rightarrow> jsfield" where
  "getBidAmountForCurrency s =
     (let currency = toUpperCase (userCurrency s); c = config s
      in if currency = ''USD'' then nullishField (bidAmountUsd c) (bidAmount c)
         else if currency = ''EUR'' then nullishField (bidAmountEur c) (bidAmount c)
         else nullishField (bidAmountIdr c) (bidAmount c))"

text \<open>
  The compounding loop: \<open>amount = Math.round(total * rate); total += amount\<close>, repeated
  \<open>step\<close> times. \<open>Math.round\<close> rounds a half upwards, as \<open>round\<close> does.

  The code computes in double-precision floating point; \<open>compound\<close> and \<open>rawAmountOf\<close>
  compute on exact integers and rationals. The two agree as long as every amount and
  running total stays below \<open>2^53\<close> and no product \<open>total * rate\<close> is so close to a half
  that the rounding error of \<open>percent / 100\<close> decides the direction of \<open>Math.round\<close>. Past
  that (totals above \<open>2^53\<close>, or a half-way product with a percentage other than those
  the settings offer) the code's amount can differ from the one computed here. Where a
  statement below evaluates \<open>rawAmountOf\<close>, it does so at an input inside that range.
\<close>

fun compound :: "nat \<Rightarrow> rat \<Rightarrow> int \<Rightarrow> int \<Rightarrow> int" where
  "compound 0 rate tot amt = amt"
| "compound (Suc n) rate tot amt =
     (let a = round (of_int tot * rate) in compound n rate (tot + a) a)"

definition effectiveStep :: "engine \<Rightarrow> int" where
  "effectiveStep s =
     (let step0 = (if switchDemoActive s then 0 else martingaleStep s);
          step1 = min step0 MAX_K_STEP
      in case resetMartingale (config s) of
           Some rm \<Rightarrow> if rm = 0 then 0 else if rm > 0 then min step1 rm else step1
         | None \<Rightarrow> step1)"

definition rawAmountOf :: "engine \<Rightarrow> int" where
  "rawAmountOf s =
     (let base = nullish (safeNumber (getBidAmountForCurrency s)) 0;
          percent = nullish (martingale (config s)) 0;
          step = effectiveStep s;
          rate = (if percent > 0 then percent / 100 else 1);
          amount0 = round base;
          amt = (if step > 0 then compound (nat step) rate amount0 amount0 else amount0)
      in amt * 100)"

definition calculateBidAmounts :: "engine \<Rightarrow> (engine \<times> int list) option" where
  "calculateBidAmounts s =
     (let currency = toUpperCase (userCurrency s);
          minBid = minBidOf currency;
          maxBid = maxBidOf currency;
          rawAmount = rawAmountOf s
      in if rawAmount \<le> 0 then Some (s, [])
         else if rawAmount < minBid then Some (s, [])
         else if rawAmount > maxBid then
           map_option (Pair s) (splitBidAmounts rawAmount minBid maxBid)
         else
           (let dealType = (if forceDemo s then WDemo else currentWalletType s);
                availableBalance = (if dealType = WDemo then balanceDemo s else balanceReal s)
            in if availableBalance > 0 \<and> of_int rawAmount > availableBalance
               then Some (stop MsgSaldoTidakCukup s, [])
               else Some (s, [rawAmount])))"

subsection \<open>Sending a bid\<close>

text \<open>
  The local time zone, as \<open>Date\<close> sees it: the offset from UTC in force at an instant
  (epoch milliseconds), and the offset \<open>Date\<close> applies to a local time when it converts
  it back to an instant. Both are in milliseconds; they may change with the time, as
  they do at a daylight-saving transition.
\<close>

record zone =
  utcOffset :: "int \<Rightarrow> int"
  localOffset :: "int \<Rightarrow> int"

definition LocalTime :: "zone \<Rightarrow> int \<Rightarrow> int" where
  "LocalTime z t = t + utcOffset z t"

definition UTC :: "zone \<Rightarrow> int \<Rightarrow> int" where
  "UTC z loc = loc - localOffset z loc"

text \<open>
  \<open>getSeconds\<close> and \<open>getMinutes\<close> read the fields of the local time. \<open>setMinutes(m)\<close> keeps
  the local day, hour, seconds and milliseconds and replaces the minutes (a value outside
  0..59 carries into the hour); \<open>setSeconds(sec, ms)\<close> keeps the local day, hour and
  minute. Both convert the new local time back to an instant.
\<close>

definition getSeconds :: "zone \<Rightarrow> int \<Rightarrow> int" where
  "getSeconds z t = (LocalTime z t div 1000) mod 60"

definition getMinutes :: "zone \<Rightarrow> int \<Rightarrow> int" where
  "getMinutes z t = (LocalTime z t div 60000) mod 60"

definition setMinutes :: "zone \<Rightarrow> int \<Rightarrow> int \<Rightarrow> int" where
  "setMinutes z t m =
     (let loc = LocalTime z t
      in UTC z ((loc div 3600000) * 3600000 + m * 60000 + loc mod 60000))"

definition setSeconds :: "zone \<Rightarrow> int \<Rightarrow> int \<Rightarrow> int \<Rightarrow> int" where
  "setSeconds z t sec ms =
     (let loc = LocalTime z t
      in UTC z ((loc div 60000) * 60000 + sec * 1000 + ms))"

text \<open>
  \<open>expire_at\<close>: \<open>expireAtDate.setMinutes(getMinutes() + intervalMinutes + (seconds > 30 ? 1 : 0))\<close>,
  then \<open>setSeconds(0, 0)\<close>, then \<open>Math.floor(getTime() / 1000)\<close>.
\<close>

definition expireAtOf :: "zone \<Rightarrow> int \<Rightarrow> int \<Rightarrow> int" where
  "expireAtOf z nowMs intervalMinutes =
     (let seconds = getSeconds z nowMs;
          d1 = setMinutes z nowMs
                 (getMinutes z nowMs + intervalMinutes + (if seconds > 30 then 1 else 0));
          d2 = setSeconds z d1 0 0
      in d2 div 1000)"

definition intervalGuard :: "bool \<Rightarrow> int \<Rightarrow> engine \<Rightarrow> bool" where
  "intervalGuard bypassInterval nowMs s =
     (strategy (config s) \<noteq> Signal \<and> \<not> bypassInterval \<and>
      (if strategy (config s) = Flash5st then nowMs - lastBidAt s < 5000 - 250
       else (case interval (config s) of
               None \<Rightarrow> False
             | Some n \<Rightarrow> nowMs - lastBidAt s < max 1 n * 60000 - 250)))"

definition bidInFlight :: "int \<Rightarrow> engine \<Rightarrow> bool" where
  "bidInFlight nowGuard s =
     (case bidInFlightUntil s of None \<Rightarrow> False | Some u \<Rightarrow> u \<noteq> 0 \<and> nowGuard < u)"

definition chooseTrend :: "trend \<Rightarrow> engine \<Rightarrow> engine \<times> trend" where
  "chooseTrend t s =
     (let canRepeat = (case maxMartingale (config s) of
                         None \<Rightarrow> False | Some m \<Rightarrow> m > 0 \<and> repeatStep s > 0);
          isDemoMode = (forceDemo s \<or> currentWalletType s = WDemo \<or> switchDemoActive s
                        \<or> disableRepeatAfterDemo s)
      in if strategy (config s) = Fast then
           (let (s1, t1) =
                  (if \<not> isDemoMode \<and> fastRepeatTrend s \<noteq> None then
                     (s\<lparr>lastSignalTrend := fastRepeatTrend s\<rparr>, nullish (fastRepeatTrend s) t)
                   else if canRepeat \<and> \<not> isDemoMode \<and> lastSignalTrend s \<noteq> None then
                     (s, nullish (lastSignalTrend s) t)
                   else (s\<lparr>lastSignalTrend := Some t\<rparr>, t))
            in (s1\<lparr>lastFastBidTrend := Some t1\<rparr>, t1))
         else if canRepeat \<and> lastSignalTrend s \<noteq> None then (s, nullish (lastSignalTrend s) t)
         else (s\<lparr>lastSignalTrend := Some t\<rparr>, t))"

definition sendCreate :: "trend \<Rightarrow> int \<Rightarrow> int \<Rightarrow> int option \<Rightarrow> engine \<Rightarrow> int \<times> int \<Rightarrow> engine" where
  "sendCreate t index nowMs expireAt s ia =
     (let r = nextRef s;
          j = nullish (map_of (joinRefs s) ''bo'') r;
          target = (if streamSocket s = Some WS_OPEN then StreamSocket else TradeSocket);
          msg = \<lparr>created_at = nowMs + (index + fst ia) * 500,
                 expire_at = expireAt,
                 ric = asset (config s),
                 deal_type = (if forceDemo s then WDemo else currentWalletType s),
                 blitz = (strategy (config s) = Flash5st),
                 bc_trend = t,
                 bc_amount = snd ia,
                 ref = r,
                 join_ref = j\<rparr>
      in s\<lparr>nextRef := r + 1, sent := sent s @ [(target, Create msg)]\<rparr>)"

text \<open>
  \<open>sendBid\<close> from the cooldown block on, once every guard has let the call through.
\<close>

definition placeBid ::
  "zone \<Rightarrow> trend \<Rightarrow> int \<Rightarrow> int \<Rightarrow> int \<Rightarrow> engine \<Rightarrow> engine option" where
  "placeBid z t index nowMs nowEnd s =
     (let (s1, t1) = chooseTrend t s
      in case calculateBidAmounts s1 of
           None \<Rightarrow> None
         | Some (s2, amounts) \<Rightarrow>
             if amounts = [] then Some s2
             else
               (let s3 = s2\<lparr>lastBidAt := nowMs\<rparr>;
                    expireAt = map_option (\<lambda>n. expireAtOf z nowMs (max 1 n)) (interval (config s3));
                    s4 = s3\<lparr>lastBidAmount := Some (hd amounts)\<rparr>;
                    s5 = foldl (sendCreate t1 index nowMs expireAt) s4
                           (zip (map int [0..<length amounts]) amounts);
                    bidCooldownMs = (if strategy (config s5) = Flash5st then 5000 else 10000)
                in Some (persistBotState
                     (s5\<lparr>bidInFlightUntil := Some (nowEnd + bidCooldownMs),
                         lastBidStep := martingaleStep s5,
                         lastBidWasSwitchDemo := forceDemo s5\<rparr>))))"

text \<open>
  \<open>sendBid(trend, index, {bypassInterval})\<close>, with the time zone of the device and the
  three readings of \<open>Date.now()\<close> it makes: at entry, at the in-flight guard, and after
  the frames are written.
\<close>

definition sendBid ::
  "zone \<Rightarrow> trend \<Rightarrow> int \<Rightarrow> bool \<Rightarrow> int \<Rightarrow> int \<Rightarrow> int \<Rightarrow> engine \<Rightarrow> engine option" where
  "sendBid z t index bypassInterval nowMs nowGuard nowEnd s =
     (if status s \<noteq> Running then Some s
      else if intervalGuard bypassInterval nowMs s then Some s
      else if bidInFlight nowGuard s then Some s
      else if openedBids s \<noteq> [] \<or> pendingUUIDs s \<noteq> [] then Some s
      else if \<not> tradeReady s \<or> \<not> streamReady s then Some s
      else if tradeSocket s \<noteq> Some WS_OPEN then Some s
      else if cooldownActive s then
        (let s1 = s\<lparr>cooldownCount := cooldownCount s + 1\<rparr>
         in if cooldownCount s1 \<le> cooldownMax s1 then Some s1
            else placeBid z t index nowMs nowEnd (s1\<lparr>cooldownActive := False, cooldownCount := 0\<rparr>))
      else placeBid z t index nowMs nowEnd s)"

subsection \<open>Resume\<close>

definition loadBotState :: "engine \<Rightarrow> engine" where
  "loadBotState s =
     (case stored s of
        NoItem \<Rightarrow> s
      | Unparsable \<Rightarrow>
          s\<lparr>lastBidStep := 0, lastBidWasSwitchDemo := False, lastSignalTrend := None,
            lastFastBidTrend := None, lastBidAmount := None\<rparr>
      | Item st \<Rightarrow>
          (let t = (case lastTrend st of Some v \<Rightarrow> Some v | None \<Rightarrow> lastSignalTrend s)
           in s\<lparr>lastBidStep := nullish (lastStep st) 0,
                lastBidWasSwitchDemo := lastWasSwitchDemo st,
                lastSignalTrend := t,
                lastFastBidTrend := t,
                fastRepeatTrend := None,
                lastBidAmount :=
                  (case lastAmount st of Some a \<Rightarrow> Some a | None \<Rightarrow> lastBidAmount s)\<rparr>))"

definition extractDeals :: "DealsResponse \<Rightarrow> DealItem list" where
  "extractDeals r =
     nullish (data_standard_trade_deals r)
       (nullish (standard_trade_deals r) (nullish (data_deals r) (nullish (deals r) [])))"

fun settledDeals :: "settled \<Rightarrow> DealItem list" where
  "settledDeals Rejected = []"
| "settledDeals (Fulfilled r) = extractDeals r"

text \<open>
  The most recent deal: those with a truthy \<open>created_at\<close>, sorted by
  \<open>Number(new Date(b.created_at)) - Number(new Date(a.created_at))\<close>, first element. When
  every date parses, this is a stable sort by descending time. A date that does not parse
  makes the comparison \<open>NaN\<close>; the comparator is then not a consistent one and the order
  is whatever the JavaScript engine's sort produces, which is the parameter \<open>implSort\<close>.
\<close>

fun dateValue :: "jsdate \<Rightarrow> int" where
  "dateValue (DateAt t) = t"
| "dateValue d = 0"

definition mostRecentDeal ::
  "(DealItem list \<Rightarrow> DealItem list) \<Rightarrow> DealItem list \<Rightarrow> DealItem option" where
  "mostRecentDeal implSort xs =
     (let ys = filter (\<lambda>d. d_created_at d \<noteq> NoDate) xs;
          ordered = (if list_all (\<lambda>d. d_created_at d \<noteq> InvalidDate) ys
                     then sort_key (\<lambda>d. - dateValue (d_created_at d)) ys
                     else implSort ys)
      in case ordered of
           [] \<Rightarrow> None
         | d # _ \<Rightarrow> Some d)"

definition computeResumeState ::
  "(DealItem list \<Rightarrow> DealItem list) \<Rightarrow> settled \<Rightarrow> settled \<Rightarrow> engine \<Rightarrow> ResumeState" where
  "computeResumeState implSort demoResult realResult s =
     (let list = settledDeals demoResult @ settledDeals realResult;
          openedDeals = filter (\<lambda>d. d_status d = Some ''opened'') list
      in if openedDeals \<noteq> [] then
           \<lparr>shouldResume = True, resumeStep = lastBidStep s + 1, reason = UNCLOSED_BID,
            lastDeal = Some (hd openedDeals)\<rparr>
         else
           (case mostRecentDeal implSort list of
              None \<Rightarrow> \<lparr>shouldResume = False, resumeStep = 0, reason = NONE, lastDeal = None\<rparr>
            | Some d \<Rightarrow>
                (let winValue = safeNumber (d_win d)
                 in if winValue = Some 0 then
                      \<lparr>shouldResume = True, resumeStep = lastBidStep s + 1,
                       reason = LAST_BID_LOST, lastDeal = Some d\<rparr>
                    else if winValue \<noteq> None \<and> lastBidWasSwitchDemo s then
                      \<lparr>shouldResume = True, resumeStep = lastBidStep s + 1,
                       reason = LAST_BID_WON_IN_SWITCH_DEMO, lastDeal = Some d\<rparr>
                    else \<lparr>shouldResume = False, resumeStep = 0, reason = NONE,
                          lastDeal = Some d\<rparr>)))"

definition checkResumeState ::
  "(DealItem list \<Rightarrow> DealItem list) \<Rightarrow> settled \<Rightarrow> settled \<Rightarrow> engine \<Rightarrow>
     engine \<times> ResumeState" where
  "checkResumeState implSort demoResult realResult s =
     (let s1 = loadBotState s;
          st = computeResumeState implSort demoResult realResult s1
      in (s1\<lparr>pendingResumeState := (if shouldResume st then Some st else None)\<rparr>, st))"

subsection \<open>The state at construction, and a connected, running engine\<close>

text \<open>
  \<open>DEFAULT_TRADE_CONFIG\<close> and the field initialisers of the class; \<open>runningEngine\<close> is the
  state once \<open>start\<close> has connected both sockets and joined their topics.
\<close>

definition DEFAULT_TRADE_CONFIG :: TradeConfig where
  "DEFAULT_TRADE_CONFIG =
     \<lparr>asset = ''Z-CRY/IDX'', strategy = Signal, interval = Some 1,
      bidAmountIdr = Num 14000, bidAmountUsd = Num 1, bidAmountEur = Num 1,
      bidAmount = Undefined, autoSwitchDemo = True, martingale = Some 130,
      maxMartingale = Some 1, resetMartingale = Some 2, stopLoss = Some 2,
      stopProfitAfter = Some 999999999\<rparr>"

definition initialEngine :: engine where
  "initialEngine =
     \<lparr>nativeEnabled = False, status = Idle, config = DEFAULT_TRADE_CONFIG,
      pendingUUIDs = [], openedBids = [], processedBatches = [],
      martingaleStep = 0, lossStreak = 0, totalProfit = 0,
      balanceReal = 0, balanceDemo = 0, userCurrency = ''IDR'',
      currentWalletType = WDemo, forceDemo = False, allowAutoSwitch = True,
      nextRef = 1, joinRefs = [], lastBidStep = 0, lastBidWasSwitchDemo = False,
      cooldownActive = False, cooldownCount = 0, cooldownMax = 5,
      shouldUseSignal = True, repeatStep = 0, lastSignalTrend = None,
      pendingResumeState = None,
      tradeReady = False, streamReady = False,
      tradeConnected = False, streamConnected = False,
      lastFastBidTrend = None, fastRepeatTrend = None, bidInFlightUntil = None,
      switchDemoActive = False, switchDemoStep = None, switchDemoReturnWallet = None,
      disableRepeatAfterDemo = False, skipStopLossOnce = False,
      profitReal = 0, profitDemo = 0, lastBidAt = 0, lastBidAmount = None,
      tradeSocket = None, streamSocket = None,
      stored = NoItem, sent = [], statusEvents = [], fastReentries = []\<rparr>"

definition runningEngine :: engine where
  "runningEngine =
     initialEngine\<lparr>status := Running, tradeReady := True, streamReady := True,
       tradeConnected := True, streamConnected := True,
       tradeSocket := Some 1, streamSocket := Some 1,
       joinRefs := [(''connection'', 1), (''bo'', 6)], nextRef := 13\<rparr>"

subsection \<open>Sequences of loss settlements\<close>

text \<open>
  What the loss branch does to the step, written as a function of the reset setting and
  the step before; and a run of settlements, each a bid with the closing rate of its batch.
\<close>

definition lossStepRule :: "int option \<Rightarrow> int \<Rightarrow> int" where
  "lossStepRule rm step =
     (case rm of
        None \<Rightarrow> min (step + 1) 100
      | Some n \<Rightarrow> if n = 0 then 0 else if n > 0 \<and> step \<ge> n then 0 else min (step + 1) 100)"

definition settleAll :: "engine \<Rightarrow> (rat \<times> OpenedBid) list \<Rightarrow> engine" where
  "settleAll s xs = foldl (\<lambda>st x. settleBid (fst x) st (snd x)) s xs"

definition isLoss :: "rat \<times> OpenedBid \<Rightarrow> bool" where
  "isLoss x = (resolveOutcome (trend (snd x)) (openRate (snd x)) (fst x) = Loss)"

subsection \<open>States, events and deal history used in examples\<close>

definition openDeal :: DealItem where
  "openDeal = \<lparr>d_status = Some ''opened'', d_created_at = DateAt 1700000000000, d_win = Null\<rparr>"

definition threeStepsStored :: BotState where
  "threeStepsStored = \<lparr>lastStep = Some 3, lastWasSwitchDemo = False, lastTrend = Some Call, lastAmount = Some 1400000\<rparr>"

definition oneOpenDeal :: settled where
  "oneOpenDeal = Fulfilled \<lparr>data_standard_trade_deals = Some [openDeal], standard_trade_deals = None, data_deals = None, deals = None\<rparr>"

definition losingCall :: "rat \<times> OpenedBid" where
  "losingCall =
     (99, \<lparr>assetRic = ''Z-CRY/IDX'', closeAt = ''2024-01-01T00:01:00Z'', openRate = 100,
           trend = Call, uuid = None, amount = Some 1400000, payment = None,
           dealType = WDemo\<rparr>)"

definition skipSetStopLossOff :: engine where
  "skipSetStopLossOff =
     runningEngine\<lparr>config := DEFAULT_TRADE_CONFIG\<lparr>autoSwitchDemo := False\<rparr>,
       martingaleStep := 3, skipStopLossOnce := True\<rparr>"

definition skipSetAutoSwitch :: engine where
  "skipSetAutoSwitch =
     runningEngine\<lparr>currentWalletType := WReal, martingaleStep := 3, skipStopLossOnce := True\<rparr>"

definition openedNoUuid :: opened_item where
  "openedNoUuid =
     \<lparr>o_uuid = None, o_asset_ric = Some ''Z-CRY/IDX'', o_ric = None,
      o_close_quote_created_at = Some ''2024-01-01T00:01:00Z'', o_finished_at = None,
      o_open_rate = Some 100, o_openRate = None, o_trend_is_put = False,
      o_amount = Num 1400000, o_payment = Undefined, o_deal_type_is_real = Some False\<rparr>"

definition oversizedBid :: engine where
  "oversizedBid =
     runningEngine\<lparr>config := DEFAULT_TRADE_CONFIG\<lparr>bidAmountIdr := Num 80000000\<rparr>,
       balanceDemo := 1000000\<rparr>"

definition largeBid :: engine where
  "largeBid =
     runningEngine\<lparr>config := DEFAULT_TRADE_CONFIG\<lparr>bidAmountIdr := Num 70000000\<rparr>,
       balanceDemo := 1000000\<rparr>"

text \<open>
  The spec's wording of \<open>expire_at\<close>: the time rounded up to the next boundary of the
  N-minute interval, in epoch seconds, read either as the first boundary after the time
  or as the time itself when it lies on a boundary; and the extra minute past second 30.
\<close>

definition specNextIntervalBoundary :: "int \<Rightarrow> int \<Rightarrow> int" where
  "specNextIntervalBoundary nowMs n = (nowMs div (n * 60000) + 1) * (n * 60)"


definition specExtraMinute :: "int \<Rightarrow> int" where
  "specExtraMinute nowMs = (if (nowMs div 1000) mod 60 > 30 then 60 else 0)"



text \<open>
  Time zones: one with the same offset at all times; UTC; Jakarta (UTC+7, no daylight
  saving); and New York around 2023-11-05, where at 06:00:00 UTC (1699164000) the clocks
  went back from 02:00 EDT (UTC-4) to 01:00 EST (UTC-5). A local time of the repeated
  hour is read with the offset before the transition.
\<close>

definition fixedZone :: "int \<Rightarrow> zone" where
  "fixedZone c = \<lparr>utcOffset = (\<lambda>t. c), localOffset = (\<lambda>loc. c)\<rparr>"

definition utcZone :: zone where
  "utcZone = fixedZone 0"


definition newYorkNovember2023 :: zone where
  "newYorkNovember2023 =
     \<lparr>utcOffset = (\<lambda>t. if t < 1699164000000 then - 14400000 else - 18000000),
      localOffset = (\<lambda>loc. if loc < 1699149600000 then - 14400000 else - 18000000)\<rparr>"



text \<open>Whether an inbound event is a settlement batch.\<close>

fun isCloseDealBatch :: "socket_event \<Rightarrow> bool" where
  "isCloseDealBatch (CloseDealBatch p) = True"
| "isCloseDealBatch e = False"

text \<open>
  A settlement batch for one tracked call bid opened at rate 100 (lost at 99, won at
  101), the states in which that bid has been acknowledged, and a profit refresh that
  reports a demo profit of 100.
\<close>

definition lostBatch :: batch_payload where
  "lostBatch =
     \<lparr>b_ric = Some ''Z-CRY/IDX'', b_asset_ric = None,
      b_finished_at = Some ''2024-01-01T00:01:00Z'', b_end_rate = Some 99,
      b_close_rate = None\<rparr>"

definition wonBatch :: batch_payload where
  "wonBatch = lostBatch\<lparr>b_end_rate := Some 101\<rparr>"

definition oneOpenBid :: engine where
  "oneOpenBid = handleSocketEvent runningEngine (Opened openedNoUuid)"

definition profitTargetOpenBid :: engine where
  "profitTargetOpenBid =
     handleSocketEvent
       (runningEngine\<lparr>config := DEFAULT_TRADE_CONFIG\<lparr>stopProfitAfter := Some 1\<rparr>\<rparr>)
       (Opened openedNoUuid)"

definition trackedCall :: OpenedBid where
  "trackedCall =
     \<lparr>assetRic = ''Z-CRY/IDX'', closeAt = ''2024-01-01T00:01:00Z'', openRate = 100,
      trend = Call, uuid = None, amount = Some 1400000, payment = None, dealType = WDemo\<rparr>"

text \<open>A put bid on another asset, tracked earlier.\<close>

definition earlierPut :: OpenedBid where
  "earlierPut =
     \<lparr>assetRic = ''EUR/USD'', closeAt = ''2024-01-01T00:00:00Z'', openRate = 1,
      trend = Put, uuid = Some ''u5'', amount = Some 1400000, payment = None, dealType = WDemo\<rparr>"

definition profitReached :: "(rat \<times> rat) option" where
  "profitReached = Some (100, 0)"

text \<open>
  What one settlement batch does to the dedupe set: a new key is appended and, past 100
  entries, the 50 oldest are dropped.
\<close>

definition rememberBatchKey :: "string \<Rightarrow> string list \<Rightarrow> string list" where
  "rememberBatchKey k pb =
     (if k \<in> set pb then pb
      else if length (pb @ [k]) > 100 then drop 50 (pb @ [k]) else pb @ [k])"

text \<open>
  A trace for the dedupe set: the example batch arrives before its bid is tracked, the
  bid is acknowledged, then a hundred batches for other close times ("00" to "99") arrive.
\<close>

definition otherBatches :: "batch_payload list" where
  "otherBatches =
     map (\<lambda>fin. lostBatch\<lparr>b_finished_at := Some fin\<rparr>)
       (map (\<lambda>(a, b). [a, b]) (List.product ''0123456789'' ''0123456789''))"

definition keysAfterOtherBatches :: "string list" where
  "keysAfterOtherBatches =
     foldl (\<lambda>pb p. rememberBatchKey (batchKey p) pb) [batchKey lostBatch] otherBatches"

definition batchWithoutRic :: batch_payload where
  "batchWithoutRic = lostBatch\<lparr>b_ric := None\<rparr>"

definition keyRecordedBidTracked :: engine where
  "keyRecordedBidTracked =
     handleSocketEvent (handleCloseDealBatch None lostBatch runningEngine) (Opened openedNoUuid)"

definition afterOtherBatches :: engine where
  "afterOtherBatches =
     foldl (\<lambda>t p. handleCloseDealBatch None p t) keyRecordedBidTracked otherBatches"

section \<open>Properties\<close>

subsection \<open>Basic facts about stopping and the currency tables\<close>

lemma stop_fields:
  "skipStopLossOnce (stop m s) = skipStopLossOnce s"
  "switchDemoActive (stop m s) = switchDemoActive s"
  "switchDemoStep (stop m s) = switchDemoStep s"
  "switchDemoReturnWallet (stop m s) = switchDemoReturnWallet s"
  "forceDemo (stop m s) = forceDemo s"
  "currentWalletType (stop m s) = currentWalletType s"
  "allowAutoSwitch (stop m s) = allowAutoSwitch s"
  "martingaleStep (stop m s) = martingaleStep s"
  "config (stop m s) = config s"
  "nativeEnabled (stop m s) = nativeEnabled s"
  by (simp_all add: stop_def teardownSockets_def resetConnectionState_def)

lemma stop_status:
  "\<not> nativeEnabled s \<Longrightarrow> status (stop m s) = Stopped \<and> statusEvents (stop m s) = statusEvents s @ [(Stopped, m)]"
  "nativeEnabled s \<Longrightarrow> stop m s = s"
  by (simp_all add: stop_def teardownSockets_def resetConnectionState_def)

lemma toUpperCase_IDR: "toUpperCase ''IDR'' = ''IDR''"
  by (simp add: toUpperCase_def upperChar_def)

lemma bounds_IDR: "minBidOf ''IDR'' = 1400000" "maxBidOf ''IDR'' = 7400000000"
  by (simp_all add: minBidOf_def maxBidOf_def MIN_BID_BY_CURRENCY_def MAX_BID_BY_CURRENCY_def)

subsection \<open>The example batch and its tracked bid\<close>

lemma batch_fields:
  "batchRic lostBatch = ''Z-CRY/IDX''" "batchFinishedAt lostBatch = ''2024-01-01T00:01:00Z''"
  "batchKey lostBatch = ''Z-CRY/IDX:2024-01-01T00:01:00Z''" "batchEndRate lostBatch = 99"
  "batchRic wonBatch = ''Z-CRY/IDX''" "batchFinishedAt wonBatch = ''2024-01-01T00:01:00Z''"
  "batchKey wonBatch = ''Z-CRY/IDX:2024-01-01T00:01:00Z''" "batchEndRate wonBatch = 101"
  by (simp_all add: batchRic_def batchFinishedAt_def batchKey_def batchEndRate_def
      lostBatch_def wonBatch_def)

lemma openedBidOf_openedNoUuid:
  "currentWalletType s = WDemo \<Longrightarrow> openedBidOf openedNoUuid s = trackedCall"
  by (simp add: openedBidOf_def openedNoUuid_def trackedCall_def)

lemma matches_trackedCall:
  "matchesBatch lostBatch trackedCall" "matchesBatch wonBatch trackedCall"
  by (simp_all add: matchesBatch_def batch_fields trackedCall_def)

lemma oneOpenBid_eq: "oneOpenBid = runningEngine\<lparr>openedBids := [trackedCall]\<rparr>"
proof -
  have w: "currentWalletType runningEngine = WDemo" "openedBids runningEngine = []"
    "bidInFlightUntil runningEngine = None"
    by (simp_all add: runningEngine_def initialEngine_def)
  have "openedBidOf openedNoUuid (runningEngine\<lparr>bidInFlightUntil := None\<rparr>) = trackedCall"
    by (rule openedBidOf_openedNoUuid) (simp add: w)
  then have "handleOpened openedNoUuid runningEngine =
               runningEngine\<lparr>bidInFlightUntil := None, openedBids := [trackedCall]\<rparr>"
    by (simp add: handleOpened_def Let_def openedNoUuid_def trackedCall_def pushOpenedBid_def w)
  moreover have "runningEngine\<lparr>bidInFlightUntil := None\<rparr> = runningEngine"
    using w(3) by simp
  ultimately show ?thesis by (simp add: oneOpenBid_def)
qed


subsection \<open>The martingale step under losses\<close>

lemma applyCooldown_fields [simp]:
  "martingaleStep (applyCooldown s) = martingaleStep s"
  "config (applyCooldown s) = config s"
  "switchDemoActive (applyCooldown s) = switchDemoActive s"
  "repeatStep (applyCooldown s) = repeatStep s"
  "disableRepeatAfterDemo (applyCooldown s) = disableRepeatAfterDemo s"
  by (simp_all add: applyCooldown_def)

lemma lossMartingale_fields:
  "config (lossMartingale s) = config s"
  "switchDemoActive (lossMartingale s) = switchDemoActive s"
  by (simp_all add: lossMartingale_def split: option.splits)

lemma lossRepeat_fields:
  "config (lossRepeat s) = config s"
  "switchDemoActive (lossRepeat s) = switchDemoActive s"
  "martingaleStep (lossRepeat s) = martingaleStep s"
  by (simp_all add: lossRepeat_def Let_def split: option.splits)

lemma settleLoss_step:
  "\<not> switchDemoActive s \<Longrightarrow>
   martingaleStep (settleLoss s) = lossStepRule (resetMartingale (config s)) (martingaleStep s)"
  by (simp add: settleLoss_def Let_def lossRepeat_fields lossMartingale_def lossStepRule_def
      MAX_K_STEP_def split: option.splits)

lemma settleLoss_frame:
  "config (settleLoss s) = config s \<and> switchDemoActive (settleLoss s) = switchDemoActive s"
  by (simp add: settleLoss_def Let_def lossRepeat_fields lossMartingale_fields)

lemma settleBid_loss:
  assumes "isLoss (r, b)"
  shows "config (settleBid r s b) = config s"
    and "switchDemoActive (settleBid r s b) = switchDemoActive s"
    and "\<not> switchDemoActive s \<Longrightarrow>
         martingaleStep (settleBid r s b) =
           lossStepRule (resetMartingale (config s)) (martingaleStep s)"
  using assms
  by (simp_all add: settleBid_def isLoss_def Let_def persistBotState_def queueFastReentry_def
      settleLoss_frame settleLoss_step)

lemma settleAll_frame:
  "\<forall>x\<in>set xs. isLoss x \<Longrightarrow>
   config (settleAll s xs) = config s \<and> switchDemoActive (settleAll s xs) = switchDemoActive s"
proof (induction xs arbitrary: s)
  case Nil
  then show ?case by (simp add: settleAll_def)
next
  case (Cons x xs)
  have "isLoss (fst x, snd x)" using Cons.prems by simp
  from settleBid_loss(1,2)[OF this] Cons.IH[of "settleBid (fst x) s (snd x)"] Cons.prems
  show ?case by (simp add: settleAll_def)
qed

lemma lossStepRule_bound:
  "(case rm of
      None \<Rightarrow> lossStepRule rm step \<le> 100
    | Some n \<Rightarrow> if n = 0 then lossStepRule rm step = 0
                else if n > 0 then lossStepRule rm step \<le> min n 100
                else lossStepRule rm step \<le> 100)"
  by (auto simp: lossStepRule_def split: option.splits)

text \<open>
  C1. Outside switch-demo mode, after every loss settlement of a sequence of losses the
  step is what the reset rule makes of the step before (0 when the setting is 0; with a
  positive setting N, 0 once the step has reached N and one more otherwise; one more with
  a negative or non-numeric setting; never above 100), so it is 0 when the setting is 0,
  at most min(N, 100) when it is a positive N, and at most 100 otherwise.
\<close>

theorem martingaleStep_bounded_after_losses:
  assumes "\<not> switchDemoActive s" and "\<forall>x\<in>set xs. isLoss x" and "isLoss x"
  shows "martingaleStep (settleAll s (xs @ [x])) =
           lossStepRule (resetMartingale (config s)) (martingaleStep (settleAll s xs)) \<and>
         (case resetMartingale (config s) of
            None \<Rightarrow> martingaleStep (settleAll s (xs @ [x])) \<le> 100
          | Some n \<Rightarrow>
              if n = 0 then martingaleStep (settleAll s (xs @ [x])) = 0
              else if n > 0 then martingaleStep (settleAll s (xs @ [x])) \<le> min n 100
              else martingaleStep (settleAll s (xs @ [x])) \<le> 100)"
proof -
  have fr: "config (settleAll s xs) = config s" "\<not> switchDemoActive (settleAll s xs)"
    using settleAll_frame[OF assms(2), of s] assms(1) by simp_all
  have "isLoss (fst x, snd x)" using assms(3) by simp
  from settleBid_loss(3)[OF this fr(2)]
  have step: "martingaleStep (settleAll s (xs @ [x])) =
           lossStepRule (resetMartingale (config s)) (martingaleStep (settleAll s xs))"
    using fr(1) by (simp add: settleAll_def)
  show ?thesis
    unfolding step using lossStepRule_bound[of "resetMartingale (config s)" "martingaleStep (settleAll s xs)"]
    by simp
qed

lemma isLoss_losingCall: "isLoss losingCall"
  by (simp add: isLoss_def losingCall_def resolveOutcome_def)

theorem martingaleStep_bounded_after_losses_witness:
  "\<not> switchDemoActive runningEngine \<and> list_all isLoss [losingCall, losingCall] \<and>
   isLoss losingCall \<and> resetMartingale (config runningEngine) = Some 2 \<and>
   martingaleStep (settleAll runningEngine ([losingCall, losingCall] @ [losingCall])) \<le> min 2 100"
proof -
  have h1: "\<not> switchDemoActive runningEngine"
    by (simp add: runningEngine_def initialEngine_def)
  have h2: "\<forall>x\<in>set [losingCall, losingCall]. isLoss x"
    by (simp add: isLoss_losingCall)
  have c: "resetMartingale (config runningEngine) = Some 2"
    by (simp add: runningEngine_def initialEngine_def DEFAULT_TRADE_CONFIG_def)
  from martingaleStep_bounded_after_losses[OF h1 h2 isLoss_losingCall] c h1 h2 isLoss_losingCall
  show ?thesis by simp
qed

subsection \<open>Splitting a bid above the maximum\<close>

text \<open>
  The loop keeps \<open>remaining\<close> at or above the minimum. A chunk cut short so that the
  minimum is left over is \<open>maxBid + remainder - minBid\<close>, which is at least the minimum
  as soon as \<open>2 * minBid \<le> maxBid + 1\<close>; every currency's bounds satisfy that.
\<close>

lemma splitLoop_correct:
  assumes "0 < minBid" and "2 * minBid \<le> maxBid + 1"
  shows "minBid \<le> remaining \<Longrightarrow>
         \<exists>res. splitLoop remaining minBid maxBid chunks = Some res \<and>
               sum_list res = sum_list chunks + remaining \<and>
               (set res - set chunks \<subseteq> {c. minBid \<le> c \<and> c \<le> maxBid}) \<and>
               set chunks \<subseteq> set res"
proof (induction "nat remaining" arbitrary: remaining chunks rule: less_induct)
  case less
  have pos: "remaining > 0" using less.prems assms(1) by linarith
  show ?case
  proof (cases "remaining \<le> maxBid")
    case True
    then show ?thesis
      using pos less.prems by (subst splitLoop.simps) auto
  next
    case False
    define nxt where "nxt = (if remaining - maxBid > 0 \<and> remaining - maxBid < minBid
                   then remaining - minBid else maxBid)"
    have nxt_bounds: "minBid \<le> nxt" "nxt \<le> maxBid" "0 < nxt" "minBid \<le> remaining - nxt"
      using False assms by (auto simp: nxt_def)
    have unfold: "splitLoop remaining minBid maxBid chunks =
                  splitLoop (remaining - nxt) minBid maxBid (chunks @ [nxt])"
      using pos False by (subst splitLoop.simps) (simp add: nxt_def)
    have "nat (remaining - nxt) < nat remaining" using nxt_bounds pos by linarith
    from less.hyps[OF this nxt_bounds(4), of "chunks @ [nxt]"]
    obtain res where r: "splitLoop (remaining - nxt) minBid maxBid (chunks @ [nxt]) = Some res"
      "sum_list res = sum_list (chunks @ [nxt]) + (remaining - nxt)"
      "set res - set (chunks @ [nxt]) \<subseteq> {c. minBid \<le> c \<and> c \<le> maxBid}"
      "set (chunks @ [nxt]) \<subseteq> set res"
      by blast
    show ?thesis
      unfolding unfold using r nxt_bounds(1,2) by auto
  qed
qed

lemma splitBidAmounts_correct:
  assumes "0 < minBid" and "2 * minBid \<le> maxBid + 1" and "maxBid < tot"
  shows "\<exists>chunks. splitBidAmounts tot minBid maxBid = Some chunks \<and>
               sum_list chunks = tot \<and> (\<forall>c\<in>set chunks. minBid \<le> c \<and> c \<le> maxBid)"
proof -
  have "minBid \<le> tot" using assms by linarith
  from splitLoop_correct[OF assms(1,2) this, of "[]"] assms(3)
  show ?thesis by (auto simp: splitBidAmounts_def)
qed

lemma currency_bounds:
  "0 < minBidOf currency \<and> 2 * minBidOf currency \<le> maxBidOf currency + 1"
  by (simp add: minBidOf_def maxBidOf_def MIN_BID_BY_CURRENCY_def MAX_BID_BY_CURRENCY_def)

text \<open>
  C2. With the bid bounds of any currency code (an unknown code has the IDR bounds) and
  a total above the maximum, \<open>splitBidAmounts\<close> returns, the chunks it returns sum to
  the total, and every chunk lies between the minimum and the maximum.
\<close>

theorem splitBidAmounts_invariant:
  assumes "maxBidOf currency < tot"
  shows "\<exists>chunks. splitBidAmounts tot (minBidOf currency) (maxBidOf currency) = Some chunks \<and>
               sum_list chunks = tot \<and>
               (\<forall>c\<in>set chunks. minBidOf currency \<le> c \<and> c \<le> maxBidOf currency)"
  using splitBidAmounts_correct[of "minBidOf currency" "maxBidOf currency" tot]
    currency_bounds[of currency] assms by blast

lemma bounds_USD: "minBidOf ''USD'' = 100" "maxBidOf ''USD'' = 500000"
  by (simp_all add: minBidOf_def maxBidOf_def MIN_BID_BY_CURRENCY_def MAX_BID_BY_CURRENCY_def)

theorem splitBidAmounts_invariant_witness:
  "maxBidOf ''USD'' < 1000050 \<and>
   splitBidAmounts 1000050 (minBidOf ''USD'') (maxBidOf ''USD'') = Some [500000, 499950, 100] \<and>
   (\<exists>chunks. splitBidAmounts 1000050 (minBidOf ''USD'') (maxBidOf ''USD'') = Some chunks \<and>
      sum_list chunks = 1000050 \<and>
      (\<forall>c\<in>set chunks. minBidOf ''USD'' \<le> c \<and> c \<le> maxBidOf ''USD''))"
proof -
  have h: "maxBidOf ''USD'' < 1000050"
    by (simp add: bounds_USD)
  have e: "splitBidAmounts 1000050 (minBidOf ''USD'') (maxBidOf ''USD'') = Some [500000, 499950, 100]"
    unfolding bounds_USD by (simp add: splitBidAmounts_def splitLoop.simps)
  from splitBidAmounts_invariant[OF h] h e show ?thesis by blast
qed

subsection \<open>The insufficient-funds guard\<close>

lemma oversizedBid_fields:
  "userCurrency oversizedBid = ''IDR''" "balanceDemo oversizedBid = 1000000"
  "forceDemo oversizedBid = False" "currentWalletType oversizedBid = WDemo"
  "status oversizedBid = Running" "switchDemoActive oversizedBid = False"
  "martingaleStep oversizedBid = 0"
  "bidAmountIdr (config oversizedBid) = Num 80000000"
  "martingale (config oversizedBid) = Some 130"
  "resetMartingale (config oversizedBid) = Some 2"
  by (simp_all add: oversizedBid_def runningEngine_def initialEngine_def DEFAULT_TRADE_CONFIG_def)

lemma largeBid_fields:
  "userCurrency largeBid = ''IDR''" "balanceDemo largeBid = 1000000"
  "forceDemo largeBid = False" "currentWalletType largeBid = WDemo"
  "status largeBid = Running" "switchDemoActive largeBid = False"
  "martingaleStep largeBid = 0"
  "bidAmountIdr (config largeBid) = Num 70000000"
  "martingale (config largeBid) = Some 130"
  "resetMartingale (config largeBid) = Some 2"
  "nativeEnabled largeBid = False"
  by (simp_all add: largeBid_def runningEngine_def initialEngine_def DEFAULT_TRADE_CONFIG_def)

lemma rawAmountOf_oversizedBid: "rawAmountOf oversizedBid = 8000000000"
  by (simp add: rawAmountOf_def getBidAmountForCurrency_def effectiveStep_def MAX_K_STEP_def
      oversizedBid_fields toUpperCase_IDR Let_def)

lemma rawAmountOf_largeBid: "rawAmountOf largeBid = 7000000000"
  by (simp add: rawAmountOf_def getBidAmountForCurrency_def effectiveStep_def MAX_K_STEP_def
      largeBid_fields toUpperCase_IDR Let_def)

lemma split_oversized: "splitBidAmounts 8000000000 1400000 7400000000 = Some [7400000000, 600000000]"
  by (simp add: splitBidAmounts_def splitLoop.simps)

text \<open>
  C3. A bid of 80,000,000 IDR (above the 74,000,000 maximum) against a demo balance of
  1,000,000: \<open>calculateBidAmounts\<close> returns the two split chunks and the engine keeps
  running, although the balance is positive and below the amount. A bid of 70,000,000
  against the same balance takes the other path: no amounts, engine stopped.
\<close>

theorem insufficient_funds_guard_skipped_for_split_bid:
  "0 < balanceDemo oversizedBid \<and> balanceDemo oversizedBid < of_int (rawAmountOf oversizedBid) \<and>
   calculateBidAmounts oversizedBid = Some (oversizedBid, [7400000000, 600000000]) \<and>
   status oversizedBid = Running \<and>
   0 < balanceDemo largeBid \<and> balanceDemo largeBid < of_int (rawAmountOf largeBid) \<and>
   calculateBidAmounts largeBid = Some (stop MsgSaldoTidakCukup largeBid, []) \<and>
   status (stop MsgSaldoTidakCukup largeBid) = Stopped"
proof -
  have a: "calculateBidAmounts oversizedBid = Some (oversizedBid, [7400000000, 600000000])"
    by (simp add: calculateBidAmounts_def Let_def rawAmountOf_oversizedBid oversizedBid_fields
        toUpperCase_IDR bounds_IDR split_oversized)
  have b: "calculateBidAmounts largeBid = Some (stop MsgSaldoTidakCukup largeBid, [])"
    by (simp add: calculateBidAmounts_def Let_def rawAmountOf_largeBid largeBid_fields
        toUpperCase_IDR bounds_IDR)
  have c: "status (stop MsgSaldoTidakCukup largeBid) = Stopped"
    by (simp add: stop_status largeBid_fields)
  show ?thesis
    by (simp add: a b c rawAmountOf_oversizedBid rawAmountOf_largeBid oversizedBid_fields largeBid_fields)
qed

subsection \<open>The expiry time of a bid\<close>

lemma hour_minute_rest:
  "(a div 3600000) * 3600000 + ((a div 60000) mod 60) * 60000 + a mod 60000 = (a::int)"
proof -
  define b where "b = a div 60000"
  have 1: "a div 3600000 = b div 60" by (simp add: b_def zdiv_zmult2_eq)
  have 2: "b div 60 * 60 + b mod 60 = b" by simp
  have 3: "b * 60000 + a mod 60000 = a" by (simp add: b_def)
  have "(b div 60) * 3600000 + (b mod 60) * 60000 = b * 60000"
    using 2 by linarith
  then show ?thesis using 3 unfolding 1 b_def by linarith
qed

text \<open>Adding to the minutes field is adding minutes to the local time.\<close>

lemma setMinutes_local:
  "setMinutes z t (getMinutes z t + k) = UTC z (LocalTime z t + k * 60000)"
proof -
  have "(LocalTime z t div 3600000) * 3600000 + (getMinutes z t + k) * 60000 +
          LocalTime z t mod 60000 =
        (LocalTime z t div 3600000) * 3600000 + ((LocalTime z t div 60000) mod 60) * 60000 +
          LocalTime z t mod 60000 + k * 60000"
    by (simp add: getMinutes_def algebra_simps)
  also have "\<dots> = LocalTime z t + k * 60000"
    by (simp only: hour_minute_rest)
  finally have h: "(LocalTime z t div 3600000) * 3600000 + (getMinutes z t + k) * 60000 +
          LocalTime z t mod 60000 = LocalTime z t + k * 60000" .
  show ?thesis unfolding setMinutes_def Let_def by (simp only: h)
qed

text \<open>
  When the zone keeps one offset \<open>c\<close>, a whole number of minutes, from \<open>nowMs\<close> until
  \<open>n + 1\<close> minutes later, the steps of \<open>Date\<close> on the local fields are steps on the epoch
  minute.
\<close>

lemma expireAtOf_no_clock_change:
  assumes c: "c mod 60000 = 0"
    and k: "1 \<le> n"
    and u: "\<forall>x. nowMs \<le> x \<and> x \<le> nowMs + (n + 1) * 60000 \<longrightarrow> utcOffset z x = c"
    and l: "\<forall>y. nowMs + c \<le> y \<and> y \<le> nowMs + c + (n + 1) * 60000 \<longrightarrow> localOffset z y = c"
  shows "expireAtOf z nowMs n =
           (nowMs div 60000 + n + (if (nowMs div 1000) mod 60 > 30 then 1 else 0)) * 60"
proof -
  define e :: int where "e = (if (nowMs div 1000) mod 60 > 30 then 1 else 0)"
  define k where "k = n + e"
  have e01: "0 \<le> e" "e \<le> 1" by (simp_all add: e_def)
  have kb: "1 \<le> k" "k \<le> n + 1" using k e01 by (simp_all add: k_def)
  obtain q where q: "c = q * 60000" using c by (metis mod_eq_0_iff_dvd dvd_def mult.commute)
  have ltm: "LocalTime z nowMs = nowMs + c"
    using u k by (simp add: LocalTime_def)
  have sec: "getSeconds z nowMs = (nowMs div 1000) mod 60"
  proof -
    have "(nowMs + q * 60000) div 1000 = nowMs div 1000 + q * 60" by simp
    then show ?thesis by (simp add: getSeconds_def ltm q)
  qed
  have d1: "setMinutes z nowMs (getMinutes z nowMs + k) = nowMs + k * 60000"
  proof -
    have "localOffset z (nowMs + c + k * 60000) = c" using l kb by simp
    then show ?thesis by (simp add: setMinutes_local ltm UTC_def)
  qed
  have lt1: "LocalTime z (nowMs + k * 60000) = nowMs + k * 60000 + c"
    using u kb by (simp add: LocalTime_def)
  have fl: "((nowMs + k * 60000 + c) div 60000) * 60000 = (nowMs div 60000 + k + q) * 60000"
    by (simp add: q)
  have ex: "(nowMs div 60000 + k + q) * 60000 =
              (nowMs div 60000) * 60000 + k * 60000 + q * 60000"
    by (simp add: algebra_simps)
  have exn: "(n + 1) * 60000 = n * 60000 + 60000" by (simp add: algebra_simps)
  have m: "nowMs = (nowMs div 60000) * 60000 + nowMs mod 60000" by simp
  have r: "0 \<le> nowMs mod 60000" "nowMs mod 60000 < 60000" by simp_all
  have rng: "nowMs + c \<le> (nowMs div 60000 + k + q) * 60000"
            "(nowMs div 60000 + k + q) * 60000 \<le> nowMs + c + (n + 1) * 60000"
    using m r kb q ex exn by linarith+
  define M where "M = (nowMs div 60000 + k + q) * 60000"
  have lo: "localOffset z M = c" using l rng by (simp add: M_def)
  have "setSeconds z (nowMs + k * 60000) 0 0 = UTC z M"
    by (simp add: setSeconds_def Let_def lt1 fl M_def)
  also have "\<dots> = M - c" by (simp add: UTC_def lo)
  also have "\<dots> = (nowMs div 60000 + k) * 60000" by (simp add: M_def q algebra_simps)
  finally have d2: "setSeconds z (nowMs + k * 60000) 0 0 = (nowMs div 60000 + k) * 60000" .
  have "expireAtOf z nowMs n = ((nowMs div 60000 + k) * 60000) div 1000"
    unfolding expireAtOf_def Let_def sec using d1 d2 by (simp add: k_def e_def add.assoc)
  also have "\<dots> = (nowMs div 60000 + k) * 60" by simp
  finally show ?thesis by (simp add: k_def e_def)
qed






lemma sendCreate_config: "config (foldl (sendCreate t index nowMs e) s xs) = config s"
  by (induction xs arbitrary: s) (simp_all add: sendCreate_def Let_def)







text \<open>With a 1-minute interval and no clock change, that is the spec's wording.\<close>

lemma expireAtOf_one_minute:
  assumes "c mod 60000 = 0"
    and "\<forall>x. nowMs \<le> x \<and> x \<le> nowMs + (1 + 1) * 60000 \<longrightarrow> utcOffset z x = c"
    and "\<forall>y. nowMs + c \<le> y \<and> y \<le> nowMs + c + (1 + 1) * 60000 \<longrightarrow> localOffset z y = c"
  shows "expireAtOf z nowMs 1 = specNextIntervalBoundary nowMs 1 + specExtraMinute nowMs"
proof -
  have "expireAtOf z nowMs 1 =
          (nowMs div 60000 + 1 + (if (nowMs div 1000) mod 60 > 30 then 1 else 0)) * 60"
    by (rule expireAtOf_no_clock_change[OF assms(1) _ assms(2) assms(3)]) simp
  then show ?thesis
    by (simp add: specNextIntervalBoundary_def specExtraMinute_def algebra_simps)
qed

text \<open>
  The hypothesis on the zone is needed. In New York at 01:59:40 EDT on 2023-11-05
  (1699163980), with a 1-minute interval, the local fields go to 02:01:00, which after the
  clocks went back is 02:01:00 EST, 07:01:00 UTC (1699167660): an hour after the 06:01:00
  UTC (1699164060) that adding two minutes to the minute of the instant gives.
\<close>

lemma expireAtOf_across_clock_change:
  "expireAtOf newYorkNovember2023 1699163980000 1 = 1699167660 \<and>
   (1699163980000 div 60000 + 1 +
      (if ((1699163980000 :: int) div 1000) mod 60 > 30 then 1 else 0)) * 60 =
     (1699164060 :: int)"
  by (simp add: expireAtOf_def getSeconds_def getMinutes_def setMinutes_def setSeconds_def
      LocalTime_def UTC_def newYorkNovember2023_def Let_def)

subsection \<open>Handling a settlement batch twice\<close>

lemma settleWin_keeps:
  "processedBatches (settleWin s) = processedBatches s \<and> statusEvents (settleWin s) = statusEvents s"
  by (simp add: settleWin_def applyCooldown_def)

lemma lossMartingale_keeps:
  "processedBatches (lossMartingale s) = processedBatches s \<and>
   statusEvents (lossMartingale s) = statusEvents s"
  by (simp add: lossMartingale_def applyCooldown_def split: option.splits)

lemma lossRepeat_keeps:
  "processedBatches (lossRepeat s) = processedBatches s \<and>
   statusEvents (lossRepeat s) = statusEvents s"
  by (simp add: lossRepeat_def Let_def split: option.splits)

lemma settleLoss_keeps:
  "processedBatches (settleLoss s) = processedBatches s \<and>
   statusEvents (settleLoss s) = statusEvents s"
  by (simp add: settleLoss_def Let_def lossRepeat_keeps lossMartingale_keeps)

lemma settleBid_keeps:
  "processedBatches (settleBid r s b) = processedBatches s \<and>
   statusEvents (settleBid r s b) = statusEvents s"
  by (simp add: settleBid_def Let_def persistBotState_def queueFastReentry_def
      settleWin_keeps settleLoss_keeps)

lemma foldl_settleBid_keeps:
  "processedBatches (foldl (settleBid r) s bs) = processedBatches s \<and>
   statusEvents (foldl (settleBid r) s bs) = statusEvents s"
  by (induction bs arbitrary: s) (simp_all add: settleBid_keeps)

lemma key_survives_eviction:
  "k \<in> set (if length (xs @ [k]) > 100 then drop 50 (xs @ [k]) else xs @ [k])"
  by simp

lemma closeDealBatchSync_known_key:
  "batchKey p \<in> set (processedBatches t) \<Longrightarrow> closeDealBatchSync p t = (t, False)"
  by (simp add: closeDealBatchSync_def)

lemma closeDealBatchSync_absent_field:
  "batchRic p = [] \<or> batchFinishedAt p = [] \<Longrightarrow> closeDealBatchSync p t = (t, False)"
  by (simp add: closeDealBatchSync_def)

lemma closeDealBatchSync_no_match:
  assumes "filter (matchesBatch p) (openedBids t) = []"
  shows "\<exists>pb. closeDealBatchSync p t = (t\<lparr>processedBatches := pb\<rparr>, False)"
proof (cases "batchRic p = [] \<or> batchFinishedAt p = [] \<or> batchKey p \<in> set (processedBatches t)")
  case True
  then have "closeDealBatchSync p t = (t\<lparr>processedBatches := processedBatches t\<rparr>, False)"
    by (auto simp: closeDealBatchSync_def)
  then show ?thesis by blast
next
  case False
  then have "closeDealBatchSync p t =
      (t\<lparr>processedBatches :=
          (if length (setAdd (batchKey p) (processedBatches t)) > 100
           then drop 50 (setAdd (batchKey p) (processedBatches t))
           else setAdd (batchKey p) (processedBatches t))\<rparr>, False)"
    using assms by (simp add: closeDealBatchSync_def Let_def)
  then show ?thesis by blast
qed

lemma closeDealBatchSync_records:
  assumes "batchRic p \<noteq> []" and "batchFinishedAt p \<noteq> []"
  shows "batchKey p \<in> set (processedBatches (fst (closeDealBatchSync p t)))"
proof (cases "batchKey p \<in> set (processedBatches t)")
  case True
  then show ?thesis by (simp add: closeDealBatchSync_known_key)
next
  case False
  then show ?thesis
    using assms key_survives_eviction[of "batchKey p" "processedBatches t"]
    by (simp add: closeDealBatchSync_def Let_def setAdd_def foldl_settleBid_keeps)
qed

lemma closeDealBatchSync_statusEvents:
  "statusEvents (fst (closeDealBatchSync p t)) = statusEvents t"
  by (simp add: closeDealBatchSync_def Let_def foldl_settleBid_keeps)

lemma handleCloseDealBatch_known_key:
  "batchKey p \<in> set (processedBatches t) \<Longrightarrow> handleCloseDealBatch tot p t = t"
  by (simp add: handleCloseDealBatch_def closeDealBatchSync_known_key)

lemma handleCloseDealBatch_absent_field:
  "batchRic p = [] \<or> batchFinishedAt p = [] \<Longrightarrow> handleCloseDealBatch tot p t = t"
  by (simp add: handleCloseDealBatch_def closeDealBatchSync_absent_field)

lemma handleCloseDealBatch_no_match:
  assumes "filter (matchesBatch p) (openedBids t) = []"
  shows "\<exists>pb. handleCloseDealBatch tot p t = t\<lparr>processedBatches := pb\<rparr>"
proof -
  from closeDealBatchSync_no_match[OF assms]
  obtain pb where "closeDealBatchSync p t = (t\<lparr>processedBatches := pb\<rparr>, False)" by blast
  then have "handleCloseDealBatch tot p t = t\<lparr>processedBatches := pb\<rparr>"
    by (simp add: handleCloseDealBatch_def)
  then show ?thesis by blast
qed

lemma only_processedBatches_differ:
  assumes "x = y\<lparr>processedBatches := pb\<rparr>"
  shows "x = y\<lparr>processedBatches := processedBatches x\<rparr>"
proof -
  have "processedBatches x = pb" by (simp add: assms)
  then show ?thesis using assms by simp
qed

lemma stop_outcome:
  "stop m z = z \<or>
   (processedBatches (stop m z) = [] \<and> openedBids (stop m z) = [] \<and>
    statusEvents (stop m z) \<noteq> statusEvents z)"
  by (simp add: stop_def teardownSockets_def resetConnectionState_def)

lemma stopProfitCheck_outcome:
  "(processedBatches (stopProfitCheck z) = processedBatches z \<and>
    statusEvents (stopProfitCheck z) = statusEvents z) \<or>
   (processedBatches (stopProfitCheck z) = [] \<and> openedBids (stopProfitCheck z) = [] \<and>
    statusEvents (stopProfitCheck z) \<noteq> statusEvents z)"
  using stop_outcome[of MsgStopProfit z]
  by (auto simp: stopProfitCheck_def split: option.splits)

lemma applyRiskRules_outcome:
  "(processedBatches (applyRiskRules y) = processedBatches y \<and>
    statusEvents (applyRiskRules y) = statusEvents y) \<or>
   (processedBatches (applyRiskRules y) = [] \<and> openedBids (applyRiskRules y) = [] \<and>
    statusEvents (applyRiskRules y) \<noteq> statusEvents y)"
proof -
  consider (skip) "applyRiskRules y = stopProfitCheck (y\<lparr>skipStopLossOnce := False\<rparr>)"
    | (switch) "applyRiskRules y = persistBotState
             (y\<lparr>switchDemoReturnWallet := Some WReal,
                currentWalletType := WDemo,
                forceDemo := True,
                switchDemoActive := True,
                switchDemoStep := Some (martingaleStep y),
                allowAutoSwitch := False,
                lastBidWasSwitchDemo := True\<rparr>)"
    | (stopped) "applyRiskRules y = stop (MsgStopLoss (martingaleStep y)) y"
    | (profit) "applyRiskRules y = stopProfitCheck y"
    unfolding applyRiskRules_def by presburger
  then show ?thesis
  proof cases
    case skip
    then show ?thesis using stopProfitCheck_outcome[of "y\<lparr>skipStopLossOnce := False\<rparr>"] by simp
  next
    case switch
    then show ?thesis by (simp add: persistBotState_def)
  next
    case stopped
    then show ?thesis using stop_outcome[of "MsgStopLoss (martingaleStep y)" y] by auto
  next
    case profit
    then show ?thesis using stopProfitCheck_outcome[of y] by simp
  qed
qed

lemma refreshProfitFromApi_keeps:
  "processedBatches (refreshProfitFromApi tot x) = processedBatches x \<and>
   openedBids (refreshProfitFromApi tot x) = openedBids x \<and>
   statusEvents (refreshProfitFromApi tot x) = statusEvents x"
  by (simp add: refreshProfitFromApi_def sendStreamPing_def Let_def split: option.splits prod.splits)

lemma handleCloseDealBatch_outcome:
  assumes "batchRic p \<noteq> []" and "batchFinishedAt p \<noteq> []"
  shows "(batchKey p \<in> set (processedBatches (handleCloseDealBatch tot p s)) \<and>
          statusEvents (handleCloseDealBatch tot p s) = statusEvents s) \<or>
         (openedBids (handleCloseDealBatch tot p s) = [] \<and>
          statusEvents (handleCloseDealBatch tot p s) \<noteq> statusEvents s)"
proof -
  obtain s1 c where sy: "closeDealBatchSync p s = (s1, c)" by (cases "closeDealBatchSync p s")
  have k: "batchKey p \<in> set (processedBatches s1)"
    using closeDealBatchSync_records[OF assms, of s] sy by simp
  have se: "statusEvents s1 = statusEvents s"
    using closeDealBatchSync_statusEvents[of p s] sy by simp
  show ?thesis
  proof (cases c)
    case False
    then have "handleCloseDealBatch tot p s = s1" using sy by (simp add: handleCloseDealBatch_def)
    then show ?thesis using k se by simp
  next
    case True
    then have h: "handleCloseDealBatch tot p s = applyRiskRules (refreshProfitFromApi tot s1)"
      using sy by (simp add: handleCloseDealBatch_def)
    show ?thesis
      unfolding h
      using applyRiskRules_outcome[of "refreshProfitFromApi tot s1"]
        refreshProfitFromApi_keeps[of tot s1] k se
      by auto
  qed
qed

text \<open>
  C5, amended. When the same settlement batch is handled twice in succession, the second
  handling changes nothing but, at most, the dedupe set: the ladder state is mutated
  once. It changes nothing at all when the first handling did not stop the engine (it
  emitted no status event), the key then being in the dedupe set; and a second copy that
  arrives before the profit refresh of the first has answered is always dropped by its
  key.
\<close>

theorem close_deal_batch_twice:
  "fst (closeDealBatchSync p (fst (closeDealBatchSync p s))) = fst (closeDealBatchSync p s) \<and>
   handleCloseDealBatch tot' p (handleCloseDealBatch tot p s) =
     (handleCloseDealBatch tot p s)
       \<lparr>processedBatches :=
          processedBatches (handleCloseDealBatch tot' p (handleCloseDealBatch tot p s))\<rparr> \<and>
   (statusEvents (handleCloseDealBatch tot p s) = statusEvents s \<longrightarrow>
      handleCloseDealBatch tot' p (handleCloseDealBatch tot p s) = handleCloseDealBatch tot p s)"
proof (cases "batchRic p = [] \<or> batchFinishedAt p = []")
  case True
  then show ?thesis
    by (simp add: handleCloseDealBatch_absent_field closeDealBatchSync_absent_field)
next
  case False
  then have ne: "batchRic p \<noteq> []" "batchFinishedAt p \<noteq> []" by simp_all
  have c1: "fst (closeDealBatchSync p (fst (closeDealBatchSync p s))) = fst (closeDealBatchSync p s)"
    using closeDealBatchSync_records[OF ne, of s] by (simp add: closeDealBatchSync_known_key)
  from handleCloseDealBatch_outcome[OF ne, of tot s]
  show ?thesis
  proof
    assume "batchKey p \<in> set (processedBatches (handleCloseDealBatch tot p s)) \<and>
          statusEvents (handleCloseDealBatch tot p s) = statusEvents s"
    then have "handleCloseDealBatch tot' p (handleCloseDealBatch tot p s) = handleCloseDealBatch tot p s"
      by (simp add: handleCloseDealBatch_known_key)
    then show ?thesis using c1 by simp
  next
    assume a: "openedBids (handleCloseDealBatch tot p s) = [] \<and>
          statusEvents (handleCloseDealBatch tot p s) \<noteq> statusEvents s"
    then have "filter (matchesBatch p) (openedBids (handleCloseDealBatch tot p s)) = []" by simp
    from handleCloseDealBatch_no_match[OF this, of tot']
    obtain pb where "handleCloseDealBatch tot' p (handleCloseDealBatch tot p s) =
        (handleCloseDealBatch tot p s)\<lparr>processedBatches := pb\<rparr>" by blast
    from only_processedBatches_differ[OF this]
    have c2: "handleCloseDealBatch tot' p (handleCloseDealBatch tot p s) =
     (handleCloseDealBatch tot p s)
       \<lparr>processedBatches :=
          processedBatches (handleCloseDealBatch tot' p (handleCloseDealBatch tot p s))\<rparr>" .
    show ?thesis
    proof (intro conjI impI)
      show "fst (closeDealBatchSync p (fst (closeDealBatchSync p s))) = fst (closeDealBatchSync p s)"
        by (rule c1)
      show "handleCloseDealBatch tot' p (handleCloseDealBatch tot p s) =
     (handleCloseDealBatch tot p s)
       \<lparr>processedBatches :=
          processedBatches (handleCloseDealBatch tot' p (handleCloseDealBatch tot p s))\<rparr>"
        by (rule c2)
      assume "statusEvents (handleCloseDealBatch tot p s) = statusEvents s"
      then show "handleCloseDealBatch tot' p (handleCloseDealBatch tot p s) = handleCloseDealBatch tot p s"
        using a by simp
    qed
  qed
qed

lemma first_loss:
  "martingaleStep (handleCloseDealBatch None lostBatch oneOpenBid) = 1 \<and>
   statusEvents (handleCloseDealBatch None lostBatch oneOpenBid) = statusEvents oneOpenBid \<and>
   martingaleStep oneOpenBid = 0"
  by (simp add: oneOpenBid_eq handleCloseDealBatch_def closeDealBatchSync_def batch_fields
      matches_trackedCall setAdd_def Let_def settleBid_def resolveOutcome_def trackedCall_def
      settleLoss_def lossMartingale_def lossRepeat_def MAX_K_STEP_def persistBotState_def
      queueFastReentry_def refreshProfitFromApi_def applyRiskRules_def stopLossReached_def
      stopProfitCheck_def getCurrentProfit_def matchesBatch_def
      runningEngine_def initialEngine_def DEFAULT_TRADE_CONFIG_def)

theorem close_deal_batch_twice_witness:
  "statusEvents (handleCloseDealBatch None lostBatch oneOpenBid) = statusEvents oneOpenBid \<and>
   martingaleStep oneOpenBid = 0 \<and>
   martingaleStep (handleCloseDealBatch None lostBatch oneOpenBid) = 1 \<and>
   handleCloseDealBatch None lostBatch (handleCloseDealBatch None lostBatch oneOpenBid) =
     handleCloseDealBatch None lostBatch oneOpenBid"
  using close_deal_batch_twice[of lostBatch oneOpenBid None None] first_loss by blast


lemma profitTargetOpenBid_eq:
  "profitTargetOpenBid =
     runningEngine\<lparr>config := DEFAULT_TRADE_CONFIG\<lparr>stopProfitAfter := Some 1\<rparr>,
       openedBids := [trackedCall]\<rparr>"
proof -
  let ?r = "runningEngine\<lparr>config := DEFAULT_TRADE_CONFIG\<lparr>stopProfitAfter := Some 1\<rparr>\<rparr>"
  have w: "currentWalletType ?r = WDemo" "openedBids ?r = []" "bidInFlightUntil ?r = None"
    by (simp_all add: runningEngine_def initialEngine_def)
  have "openedBidOf openedNoUuid (?r\<lparr>bidInFlightUntil := None\<rparr>) = trackedCall"
    by (rule openedBidOf_openedNoUuid) (simp add: runningEngine_def initialEngine_def)
  then have "handleOpened openedNoUuid ?r =
               ?r\<lparr>bidInFlightUntil := None, openedBids := [trackedCall]\<rparr>"
    using w by (simp add: handleOpened_def Let_def openedNoUuid_def trackedCall_def pushOpenedBid_def)
  moreover have "?r\<lparr>bidInFlightUntil := None\<rparr> = ?r"
    using w(3) by simp
  ultimately show ?thesis by (simp add: profitTargetOpenBid_def)
qed

lemma first_win_stops:
  "status (handleCloseDealBatch profitReached wonBatch profitTargetOpenBid) = Stopped \<and>
   statusEvents (handleCloseDealBatch profitReached wonBatch profitTargetOpenBid) =
     [(Stopped, MsgStopProfit)] \<and>
   processedBatches (handleCloseDealBatch profitReached wonBatch profitTargetOpenBid) = [] \<and>
   openedBids (handleCloseDealBatch profitReached wonBatch profitTargetOpenBid) = []"
  by (simp add: profitTargetOpenBid_eq profitReached_def handleCloseDealBatch_def
      closeDealBatchSync_def batch_fields
      matches_trackedCall setAdd_def Let_def settleBid_def resolveOutcome_def trackedCall_def
      settleWin_def applyCooldown_def persistBotState_def
      queueFastReentry_def refreshProfitFromApi_def sendStreamPing_def WS_OPEN_def
      applyRiskRules_def stopLossReached_def
      stopProfitCheck_def getCurrentProfit_def matchesBatch_def stop_def teardownSockets_def
      resetConnectionState_def
      runningEngine_def initialEngine_def DEFAULT_TRADE_CONFIG_def)

text \<open>
  C5, as stated, fails when the first handling stops the engine. With a stop-profit
  target of 1 and today's demo profit at 100, handling the winning batch stops the
  engine, which clears the dedupe set; handling the same batch again puts its key back,
  so the second handling does change the state and is not dropped by its key.
\<close>

theorem second_handling_after_stop_records_key:
  "status (handleCloseDealBatch profitReached wonBatch profitTargetOpenBid) = Stopped \<and>
   processedBatches (handleCloseDealBatch profitReached wonBatch profitTargetOpenBid) = [] \<and>
   processedBatches
     (handleCloseDealBatch profitReached wonBatch
       (handleCloseDealBatch profitReached wonBatch profitTargetOpenBid)) =
     [''Z-CRY/IDX:2024-01-01T00:01:00Z''] \<and>
   handleCloseDealBatch profitReached wonBatch
       (handleCloseDealBatch profitReached wonBatch profitTargetOpenBid) \<noteq>
     handleCloseDealBatch profitReached wonBatch profitTargetOpenBid"
proof -
  let ?s1 = "handleCloseDealBatch profitReached wonBatch profitTargetOpenBid"
  have f: "status ?s1 = Stopped" "processedBatches ?s1 = []" "openedBids ?s1 = []"
    using first_win_stops by simp_all
  have "closeDealBatchSync wonBatch ?s1 =
          (?s1\<lparr>processedBatches := [''Z-CRY/IDX:2024-01-01T00:01:00Z'']\<rparr>, False)"
    by (simp add: closeDealBatchSync_def batch_fields f setAdd_def Let_def)
  then have g: "handleCloseDealBatch profitReached wonBatch ?s1 =
          ?s1\<lparr>processedBatches := [''Z-CRY/IDX:2024-01-01T00:01:00Z'']\<rparr>"
    by (simp add: handleCloseDealBatch_def)
  have p2: "processedBatches (handleCloseDealBatch profitReached wonBatch ?s1) =
          [''Z-CRY/IDX:2024-01-01T00:01:00Z'']"
    unfolding g by simp
  have ne: "handleCloseDealBatch profitReached wonBatch ?s1 \<noteq> ?s1"
  proof
    assume "handleCloseDealBatch profitReached wonBatch ?s1 = ?s1"
    then have "processedBatches (handleCloseDealBatch profitReached wonBatch ?s1) =
               processedBatches ?s1" by simp
    then show False unfolding p2 f(2) by simp
  qed
  show ?thesis using f(1,2) p2 ne by blast
qed

subsection \<open>No bid while a position is open or an acknowledgement is pending\<close>

text \<open>
  C6. Whenever a tracked OpenedBid or a pending acknowledgement uuid exists, \<open>sendBid\<close>
  returns with the state as it was: no frame is written to either socket.
\<close>

theorem sendBid_refuses_while_open:
  assumes "openedBids s \<noteq> [] \<or> pendingUUIDs s \<noteq> []"
  shows "sendBid z t index bypassInterval nowMs nowGuard nowEnd s = Some s \<and>
         map_option sent (sendBid z t index bypassInterval nowMs nowGuard nowEnd s) = Some (sent s)"
  using assms by (simp add: sendBid_def)

theorem sendBid_refuses_while_open_witness:
  "pendingUUIDs (runningEngine\<lparr>pendingUUIDs := [''u1'']\<rparr>) \<noteq> [] \<and>
   sendBid utcZone Call 0 True 1700000000000 1700000000000 1700000000001
     (runningEngine\<lparr>pendingUUIDs := [''u1'']\<rparr>) = Some (runningEngine\<lparr>pendingUUIDs := [''u1'']\<rparr>)"
  using sendBid_refuses_while_open [of "runningEngine\<lparr>pendingUUIDs := [''u1'']\<rparr>" utcZone Call 0 True 1700000000000 1700000000000 1700000000001]
  by simp

subsection \<open>Resume with an unclosed bid\<close>

text \<open>
  C7. With a stored last step S and a deal history holding a deal with status "opened",
  \<open>checkResumeState\<close> answers shouldResume, step S + 1 and reason UNCLOSED_BID, whatever
  the other deals are (and however the engine's sort orders them), and keeps the answer
  as the pending resume state.
\<close>

theorem resume_unclosed_bid:
  assumes "stored s = Item st" and "lastStep st = Some S"
    and "\<exists>d\<in>set (settledDeals demoResult @ settledDeals realResult). d_status d = Some ''opened''"
  shows "shouldResume (snd (checkResumeState implSort demoResult realResult s)) \<and>
         resumeStep (snd (checkResumeState implSort demoResult realResult s)) = S + 1 \<and>
         reason (snd (checkResumeState implSort demoResult realResult s)) = UNCLOSED_BID \<and>
         pendingResumeState (fst (checkResumeState implSort demoResult realResult s)) =
           Some (snd (checkResumeState implSort demoResult realResult s))"
proof -
  have ne: "filter (\<lambda>d. d_status d = Some ''opened'')
              (settledDeals demoResult @ settledDeals realResult) \<noteq> []"
    using assms(3) by (auto simp: filter_empty_conv)
  have step: "lastBidStep (loadBotState s) = S"
    using assms(1,2) by (simp add: loadBotState_def Let_def)
  show ?thesis
    using ne step by (simp add: checkResumeState_def computeResumeState_def Let_def)
qed

theorem resume_unclosed_bid_witness:
  "stored (initialEngine\<lparr>stored := Item threeStepsStored\<rparr>) = Item threeStepsStored \<and>
   lastStep threeStepsStored = Some 3 \<and>
   (\<exists>d\<in>set (settledDeals oneOpenDeal @ settledDeals Rejected). d_status d = Some ''opened'') \<and>
   shouldResume (snd (checkResumeState (\<lambda>ds. ds) oneOpenDeal Rejected (initialEngine\<lparr>stored := Item threeStepsStored\<rparr>))) \<and>
   resumeStep (snd (checkResumeState (\<lambda>ds. ds) oneOpenDeal Rejected (initialEngine\<lparr>stored := Item threeStepsStored\<rparr>))) = 4 \<and>
   reason (snd (checkResumeState (\<lambda>ds. ds) oneOpenDeal Rejected (initialEngine\<lparr>stored := Item threeStepsStored\<rparr>))) = UNCLOSED_BID"
proof -
  have h1: "stored (initialEngine\<lparr>stored := Item threeStepsStored\<rparr>) = Item threeStepsStored" by simp
  have h2: "lastStep threeStepsStored = Some 3" by (simp add: threeStepsStored_def)
  have h3: "\<exists>d\<in>set (settledDeals oneOpenDeal @ settledDeals Rejected). d_status d = Some ''opened''"
    by (simp add: oneOpenDeal_def extractDeals_def openDeal_def)
  from resume_unclosed_bid[OF h1 h2 h3, of "\<lambda>ds. ds"] h1 h2 h3 show ?thesis by simp
qed

subsection \<open>The one-shot stop-loss skip\<close>

lemma stopProfitCheck_cases:
  "stopProfitCheck s = s \<or> stopProfitCheck s = stop MsgStopProfit s"
  by (simp add: stopProfitCheck_def split: option.splits)

text \<open>
  C8. When \<open>skipStopLossOnce\<close> is set, an evaluation of the risk rules clears it and takes
  no stop-loss action: the switch-demo state, the wallet and the step stay as they were,
  and the only stop it can make is the stop-profit one. The evaluation right after it
  applies the stop-loss check: when the step is above the stop-loss, it enters
  switch-demo if auto-switch is on, the wallet is real and auto-switch is allowed, and it
  stops the engine with the stop-loss message if auto-switch is off.
\<close>

theorem skipStopLossOnce_suppresses_one_check:
  assumes "skipStopLossOnce s"
  shows "\<not> skipStopLossOnce (applyRiskRules s) \<and>
         switchDemoActive (applyRiskRules s) = switchDemoActive s \<and>
         switchDemoStep (applyRiskRules s) = switchDemoStep s \<and>
         switchDemoReturnWallet (applyRiskRules s) = switchDemoReturnWallet s \<and>
         forceDemo (applyRiskRules s) = forceDemo s \<and>
         currentWalletType (applyRiskRules s) = currentWalletType s \<and>
         allowAutoSwitch (applyRiskRules s) = allowAutoSwitch s \<and>
         martingaleStep (applyRiskRules s) = martingaleStep s \<and>
         (statusEvents (applyRiskRules s) = statusEvents s \<and> status (applyRiskRules s) = status s \<or>
          statusEvents (applyRiskRules s) = statusEvents s @ [(Stopped, MsgStopProfit)]) \<and>
         (stopLossReached s \<longrightarrow>
            (autoSwitchDemo (config s) \<and> currentWalletType s = WReal \<and> allowAutoSwitch s \<longrightarrow>
               switchDemoActive (applyRiskRules (applyRiskRules s)) \<and>
               forceDemo (applyRiskRules (applyRiskRules s)) \<and>
               currentWalletType (applyRiskRules (applyRiskRules s)) = WDemo \<and>
               switchDemoStep (applyRiskRules (applyRiskRules s)) = Some (martingaleStep s)) \<and>
            (\<not> autoSwitchDemo (config s) \<and> \<not> nativeEnabled s \<longrightarrow>
               status (applyRiskRules (applyRiskRules s)) = Stopped \<and>
               last (statusEvents (applyRiskRules (applyRiskRules s))) =
                 (Stopped, MsgStopLoss (martingaleStep s))))"
proof -
  let ?s0 = "s\<lparr>skipStopLossOnce := False\<rparr>"
  have a: "applyRiskRules s = stopProfitCheck ?s0"
    using assms by (simp add: applyRiskRules_def)
  consider (same) "applyRiskRules s = ?s0" | (stopped) "applyRiskRules s = stop MsgStopProfit ?s0"
    using stopProfitCheck_cases[of ?s0] a by auto
  then show ?thesis
  proof cases
    case same
    show ?thesis
      unfolding same
      by (auto simp: applyRiskRules_def stopLossReached_def shouldSwitchToDemo_def
          persistBotState_def stop_fields stop_status split: option.splits)
  next
    case stopped
    show ?thesis
    proof (cases "nativeEnabled s")
      case True
      then have "applyRiskRules s = ?s0" unfolding stopped by (simp add: stop_status(2))
      then show ?thesis
        by (auto simp: applyRiskRules_def stopLossReached_def shouldSwitchToDemo_def
          persistBotState_def stop_fields stop_status split: option.splits)
    next
      case False
      then show ?thesis
        unfolding stopped
        by (auto simp: applyRiskRules_def stopLossReached_def shouldSwitchToDemo_def
          persistBotState_def stop_fields stop_status split: option.splits)
    qed
  qed
qed

theorem skipStopLossOnce_suppresses_one_check_witness:
  "(skipStopLossOnce skipSetStopLossOff \<and> stopLossReached skipSetStopLossOff \<and>
    \<not> autoSwitchDemo (config skipSetStopLossOff) \<and> \<not> nativeEnabled skipSetStopLossOff \<and>
    status (applyRiskRules skipSetStopLossOff) = Running \<and>
    status (applyRiskRules (applyRiskRules skipSetStopLossOff)) = Stopped \<and>
    last (statusEvents (applyRiskRules (applyRiskRules skipSetStopLossOff))) = (Stopped, MsgStopLoss 3)) \<and>
   (skipStopLossOnce skipSetAutoSwitch \<and> stopLossReached skipSetAutoSwitch \<and>
    autoSwitchDemo (config skipSetAutoSwitch) \<and> currentWalletType skipSetAutoSwitch = WReal \<and>
    allowAutoSwitch skipSetAutoSwitch \<and>
    \<not> switchDemoActive (applyRiskRules skipSetAutoSwitch) \<and>
    switchDemoActive (applyRiskRules (applyRiskRules skipSetAutoSwitch)) \<and>
    switchDemoStep (applyRiskRules (applyRiskRules skipSetAutoSwitch)) = Some 3)"
proof -
  have a: "skipStopLossOnce skipSetStopLossOff" "stopLossReached skipSetStopLossOff"
    "\<not> autoSwitchDemo (config skipSetStopLossOff)" "\<not> nativeEnabled skipSetStopLossOff"
    "martingaleStep skipSetStopLossOff = 3" "status skipSetStopLossOff = Running"
    "\<not> switchDemoActive skipSetStopLossOff"
    by (simp_all add: skipSetStopLossOff_def runningEngine_def initialEngine_def
        DEFAULT_TRADE_CONFIG_def stopLossReached_def)
  have b: "skipStopLossOnce skipSetAutoSwitch" "stopLossReached skipSetAutoSwitch"
    "autoSwitchDemo (config skipSetAutoSwitch)" "currentWalletType skipSetAutoSwitch = WReal"
    "allowAutoSwitch skipSetAutoSwitch" "martingaleStep skipSetAutoSwitch = 3"
    "\<not> switchDemoActive skipSetAutoSwitch"
    by (simp_all add: skipSetAutoSwitch_def runningEngine_def initialEngine_def
        DEFAULT_TRADE_CONFIG_def stopLossReached_def)
  have c: "status (applyRiskRules skipSetStopLossOff) = Running"
    by (simp add: applyRiskRules_def stopProfitCheck_def getCurrentProfit_def
        skipSetStopLossOff_def runningEngine_def initialEngine_def DEFAULT_TRADE_CONFIG_def)
  from skipStopLossOnce_suppresses_one_check[OF a(1)] skipStopLossOnce_suppresses_one_check[OF b(1)]
    a b c
  show ?thesis by simp
qed

subsection \<open>A settlement batch that matches no tracked bid\<close>

lemma nonbatch_keeps_processedBatches:
  "\<not> isCloseDealBatch e \<Longrightarrow> processedBatches (handleSocketEvent t e) = processedBatches t"
proof (cases e)
  case (PhxReplyBo u)
  then show ?thesis by (simp add: handlePhxReply_def Let_def split: option.splits)
next
  case (Opened item)
  then show ?thesis by (simp add: handleOpened_def Let_def)
next
  case (CloseDealBatch p)
  assume "\<not> isCloseDealBatch e"
  then show ?thesis using CloseDealBatch by simp
next
  case (BalanceChanged a b)
  then show ?thesis by (simp add: handleBalanceChanged_def Let_def)
next
  case OtherEvent
  then show ?thesis by simp
qed

lemma nonbatch_run_keeps_processedBatches:
  "\<forall>e\<in>set evs. \<not> isCloseDealBatch e \<Longrightarrow>
   processedBatches (foldl handleSocketEvent t evs) = processedBatches t"
  by (induction evs arbitrary: t) (simp_all add: nonbatch_keeps_processedBatches)

text \<open>
  C9, amended. A settlement batch that matches no tracked bid changes nothing but the
  dedupe set. When its ric and finished_at are present its key is recorded there, and a
  later batch with the same key leaves the state as it is for as long as the key is in
  the set: in particular after any run of acknowledgements, opened events and balance
  events, whether or not a matching bid has been registered in between.
\<close>

theorem unmatched_batch_only_records_key:
  assumes "filter (matchesBatch p) (openedBids s) = []"
  shows "handleCloseDealBatch tot p s =
           s\<lparr>processedBatches := processedBatches (handleCloseDealBatch tot p s)\<rparr> \<and>
         (batchRic p \<noteq> [] \<and> batchFinishedAt p \<noteq> [] \<longrightarrow>
            batchKey p \<in> set (processedBatches (handleCloseDealBatch tot p s)) \<and>
            (\<forall>evs. (\<forall>e\<in>set evs. \<not> isCloseDealBatch e) \<longrightarrow>
               handleCloseDealBatch tot' p
                 (foldl handleSocketEvent (handleCloseDealBatch tot p s) evs) =
               foldl handleSocketEvent (handleCloseDealBatch tot p s) evs)) \<and>
         (\<forall>t. batchKey p \<in> set (processedBatches t) \<longrightarrow> handleCloseDealBatch tot' p t = t)"
proof (intro conjI impI allI)
  from handleCloseDealBatch_no_match[OF assms, of tot]
  obtain pb where e: "handleCloseDealBatch tot p s = s\<lparr>processedBatches := pb\<rparr>" by blast
  from only_processedBatches_differ[OF e]
  show "handleCloseDealBatch tot p s =
           s\<lparr>processedBatches := processedBatches (handleCloseDealBatch tot p s)\<rparr>" .
next
  assume ne: "batchRic p \<noteq> [] \<and> batchFinishedAt p \<noteq> []"
  from closeDealBatchSync_no_match[OF assms]
  obtain pb where "closeDealBatchSync p s = (s\<lparr>processedBatches := pb\<rparr>, False)" by blast
  then have "handleCloseDealBatch tot p s = fst (closeDealBatchSync p s)"
    by (simp add: handleCloseDealBatch_def)
  then show k: "batchKey p \<in> set (processedBatches (handleCloseDealBatch tot p s))"
    using closeDealBatchSync_records[of p s] ne by simp
  fix evs
  assume "\<forall>e\<in>set evs. \<not> isCloseDealBatch e"
  then have "processedBatches (foldl handleSocketEvent (handleCloseDealBatch tot p s) evs) =
             processedBatches (handleCloseDealBatch tot p s)"
    by (rule nonbatch_run_keeps_processedBatches)
  then show "handleCloseDealBatch tot' p
                 (foldl handleSocketEvent (handleCloseDealBatch tot p s) evs) =
               foldl handleSocketEvent (handleCloseDealBatch tot p s) evs"
    using k by (simp add: handleCloseDealBatch_known_key)
next
  fix t :: engine
  assume "batchKey p \<in> set (processedBatches t)"
  then show "handleCloseDealBatch tot' p t = t" by (rule handleCloseDealBatch_known_key)
qed

lemma runningEngine_tracking:
  "openedBids runningEngine = []" "processedBatches runningEngine = []"
  "currentWalletType runningEngine = WDemo" "bidInFlightUntil runningEngine = None"
  "pendingUUIDs runningEngine = []"
  by (simp_all add: runningEngine_def initialEngine_def)

lemma first_unmatched:
  "handleCloseDealBatch None lostBatch runningEngine =
     runningEngine\<lparr>processedBatches := [''Z-CRY/IDX:2024-01-01T00:01:00Z'']\<rparr>"
  by (simp add: handleCloseDealBatch_def closeDealBatchSync_def batch_fields
      runningEngine_tracking setAdd_def Let_def)

lemma keyRecordedBidTracked_eq:
  "keyRecordedBidTracked =
     runningEngine\<lparr>openedBids := [trackedCall],
       processedBatches := [''Z-CRY/IDX:2024-01-01T00:01:00Z'']\<rparr>"
proof -
  let ?r = "runningEngine\<lparr>processedBatches := [''Z-CRY/IDX:2024-01-01T00:01:00Z'']\<rparr>"
  have "openedBidOf openedNoUuid (?r\<lparr>bidInFlightUntil := None\<rparr>) = trackedCall"
    by (rule openedBidOf_openedNoUuid) (simp add: runningEngine_tracking)
  then have "handleOpened openedNoUuid ?r =
               ?r\<lparr>bidInFlightUntil := None, openedBids := [trackedCall]\<rparr>"
    using runningEngine_tracking
    by (simp add: handleOpened_def Let_def openedNoUuid_def trackedCall_def pushOpenedBid_def)
  moreover have "?r\<lparr>bidInFlightUntil := None\<rparr> = ?r"
    using runningEngine_tracking(4) by simp
  ultimately show ?thesis by (simp add: keyRecordedBidTracked_def first_unmatched)
qed

theorem unmatched_batch_only_records_key_witness:
  "filter (matchesBatch lostBatch) (openedBids runningEngine) = [] \<and>
   batchRic lostBatch \<noteq> [] \<and> batchFinishedAt lostBatch \<noteq> [] \<and>
   \<not> isCloseDealBatch (Opened openedNoUuid) \<and>
   batchKey lostBatch \<in> set (processedBatches (handleCloseDealBatch None lostBatch runningEngine)) \<and>
   filter (matchesBatch lostBatch) (openedBids keyRecordedBidTracked) = [trackedCall] \<and>
   handleCloseDealBatch None lostBatch keyRecordedBidTracked = keyRecordedBidTracked"
proof -
  have h1: "filter (matchesBatch lostBatch) (openedBids runningEngine) = []"
    by (simp add: runningEngine_tracking)
  have h2: "batchRic lostBatch \<noteq> [] \<and> batchFinishedAt lostBatch \<noteq> []"
    by (simp add: batch_fields)
  have h3: "\<forall>e\<in>set [Opened openedNoUuid]. \<not> isCloseDealBatch e" by simp
  have m: "filter (matchesBatch lostBatch) (openedBids keyRecordedBidTracked) = [trackedCall]"
    by (simp add: keyRecordedBidTracked_eq matches_trackedCall)
  have f: "foldl handleSocketEvent (handleCloseDealBatch None lostBatch runningEngine)
             [Opened openedNoUuid] = keyRecordedBidTracked"
    by (simp add: keyRecordedBidTracked_def)
  from unmatched_batch_only_records_key[OF h1, of None None] h2 h3 f
  have "batchKey lostBatch \<in> set (processedBatches (handleCloseDealBatch None lostBatch runningEngine)) \<and>
        handleCloseDealBatch None lostBatch keyRecordedBidTracked = keyRecordedBidTracked"
    by metis
  then show ?thesis using h1 h2 m by simp
qed


lemma handleCloseDealBatch_unmatched:
  assumes "batchRic p \<noteq> []" and "batchFinishedAt p \<noteq> []"
    and "filter (matchesBatch p) (openedBids t) = []"
  shows "handleCloseDealBatch tot p t =
           t\<lparr>processedBatches := rememberBatchKey (batchKey p) (processedBatches t)\<rparr>"
proof (cases "batchKey p \<in> set (processedBatches t)")
  case True
  then show ?thesis by (simp add: handleCloseDealBatch_known_key rememberBatchKey_def)
next
  case False
  then show ?thesis
    using assms
    by (simp add: handleCloseDealBatch_def closeDealBatchSync_def setAdd_def
        rememberBatchKey_def Let_def)
qed

lemma unmatched_run:
  assumes "\<forall>p\<in>set ps. batchRic p \<noteq> [] \<and> batchFinishedAt p \<noteq> [] \<and>
             filter (matchesBatch p) (openedBids t) = []"
  shows "foldl (\<lambda>t p. handleCloseDealBatch tot p t) t ps =
           t\<lparr>processedBatches :=
               foldl (\<lambda>pb p. rememberBatchKey (batchKey p) pb) (processedBatches t) ps\<rparr>"
  using assms
proof (induction ps arbitrary: t)
  case Nil
  then show ?case by simp
next
  case (Cons p ps)
  let ?t1 = "t\<lparr>processedBatches := rememberBatchKey (batchKey p) (processedBatches t)\<rparr>"
  have h: "handleCloseDealBatch tot p t = ?t1"
    using Cons.prems by (intro handleCloseDealBatch_unmatched) simp_all
  have "\<forall>q\<in>set ps. batchRic q \<noteq> [] \<and> batchFinishedAt q \<noteq> [] \<and>
             filter (matchesBatch q) (openedBids ?t1) = []"
    using Cons.prems by simp
  from Cons.IH[OF this] show ?case by (simp add: h)
qed

lemma otherBatches_shape:
  "p \<in> set otherBatches \<Longrightarrow> \<exists>a b. p = lostBatch\<lparr>b_finished_at := Some [a, b]\<rparr>"
  by (auto simp: otherBatches_def)

lemma otherBatches_unmatched:
  "\<forall>p\<in>set otherBatches. batchRic p \<noteq> [] \<and> batchFinishedAt p \<noteq> [] \<and>
     filter (matchesBatch p) (openedBids keyRecordedBidTracked) = []"
proof
  fix p assume "p \<in> set otherBatches"
  then obtain a b where p: "p = lostBatch\<lparr>b_finished_at := Some [a, b]\<rparr>"
    using otherBatches_shape by blast
  show "batchRic p \<noteq> [] \<and> batchFinishedAt p \<noteq> [] \<and>
     filter (matchesBatch p) (openedBids keyRecordedBidTracked) = []"
    by (simp add: p keyRecordedBidTracked_eq batchRic_def batchFinishedAt_def matchesBatch_def
        lostBatch_def trackedCall_def)
qed

lemma afterOtherBatches_eq:
  "afterOtherBatches =
     runningEngine\<lparr>openedBids := [trackedCall], processedBatches := keysAfterOtherBatches\<rparr>"
  unfolding afterOtherBatches_def unmatched_run[OF otherBatches_unmatched]
  by (simp add: keyRecordedBidTracked_eq keysAfterOtherBatches_def batch_fields)

lemma key_evicted: "batchKey lostBatch \<notin> set keysAfterOtherBatches"
  by code_simp


lemma key_evicted_literal: "''Z-CRY/IDX:2024-01-01T00:01:00Z'' \<notin> set keysAfterOtherBatches"
  using key_evicted by (simp add: batch_fields)

lemma loss_after_eviction:
  "martingaleStep afterOtherBatches = 0 \<and>
   martingaleStep (handleCloseDealBatch None lostBatch afterOtherBatches) = 1"
  by (simp add: afterOtherBatches_eq key_evicted_literal handleCloseDealBatch_def
      closeDealBatchSync_def batch_fields
      matches_trackedCall setAdd_def Let_def settleBid_def resolveOutcome_def trackedCall_def
      settleLoss_def lossMartingale_def lossRepeat_def MAX_K_STEP_def persistBotState_def
      queueFastReentry_def refreshProfitFromApi_def applyRiskRules_def stopLossReached_def
      stopProfitCheck_def getCurrentProfit_def matchesBatch_def
      runningEngine_def initialEngine_def DEFAULT_TRADE_CONFIG_def)

text \<open>
  C9, as stated, fails once the key has left the dedupe set. The example batch arrives
  unmatched and its key is recorded; its bid is then registered; a hundred batches with
  other keys push the key out; the same batch, arriving again, settles the bid as a loss
  and the step goes from 0 to 1. And a batch without a ric records no key at all.
\<close>

theorem later_batch_after_eviction_mutates_ladder:
  "filter (matchesBatch lostBatch) (openedBids runningEngine) = [] \<and>
   batchKey lostBatch \<in> set (processedBatches (handleCloseDealBatch None lostBatch runningEngine)) \<and>
   length otherBatches = 100 \<and>
   martingaleStep afterOtherBatches = 0 \<and>
   martingaleStep (handleCloseDealBatch None lostBatch afterOtherBatches) = 1 \<and>
   filter (matchesBatch batchWithoutRic) (openedBids runningEngine) = [] \<and>
   processedBatches (handleCloseDealBatch None batchWithoutRic runningEngine) = []"
proof -
  have a: "batchKey lostBatch \<in> set (processedBatches (handleCloseDealBatch None lostBatch runningEngine))"
    by (simp add: first_unmatched batch_fields)
  have b: "processedBatches (handleCloseDealBatch None batchWithoutRic runningEngine) = []"
    by (simp add: handleCloseDealBatch_absent_field batchRic_def batchWithoutRic_def
        lostBatch_def runningEngine_tracking)
  have c: "length otherBatches = 100"
    by (simp add: otherBatches_def)
  show ?thesis
    using a b c loss_after_eviction by (simp add: runningEngine_tracking)
qed

subsection \<open>Opened events and the pending-uuid filter\<close>

lemma openedBidOf_frame:
  "currentWalletType s' = currentWalletType s \<Longrightarrow> openedBidOf item s' = openedBidOf item s"
  by (simp add: openedBidOf_def)

lemma pushOpenedBid_append:
  "pushOpenedBid b ys = (if length ys < 50 then ys else tl ys) @ [b]"
  by (cases ys) (auto simp: pushOpenedBid_def Let_def)

lemma openedBidOf_fields:
  assumes "o_asset_ric item = Some ricText \<or> o_asset_ric item = None \<and> o_ric item = Some ricText"
    and "o_close_quote_created_at item = Some closeTime \<or>
         o_close_quote_created_at item = None \<and> o_finished_at item = Some closeTime"
  shows "openedBidOf item s =
           \<lparr>assetRic = ricText, closeAt = closeTime,
            openRate = (case o_open_rate item of Some r \<Rightarrow> r
                        | None \<Rightarrow> (case o_openRate item of Some r \<Rightarrow> r | None \<Rightarrow> 0)),
            trend = (if o_trend_is_put item then Put else Call),
            uuid = (case o_uuid item of None \<Rightarrow> None
                    | Some v \<Rightarrow> if v = [] then None else Some v),
            amount = safeNumber (o_amount item),
            payment = safeNumber (o_payment item),
            dealType = (case o_deal_type_is_real item of
                          Some b \<Rightarrow> if b then WReal else WDemo
                        | None \<Rightarrow> currentWalletType s)\<rparr>"
  using assms
  by (cases "currentWalletType s") (auto simp: openedBidOf_def Let_def split: option.splits)

lemma handleOpened_ignored:
  "nullish (o_uuid item) [] \<noteq> [] \<Longrightarrow> nullish (o_uuid item) [] \<notin> set (pendingUUIDs s) \<Longrightarrow>
   handleOpened item s = s"
  by (simp add: handleOpened_def)

lemma handleOpened_no_uuid:
  assumes "nullish (o_uuid item) [] = []"
    and "assetRic (openedBidOf item s) \<noteq> []" and "closeAt (openedBidOf item s) \<noteq> []"
  shows "handleOpened item s =
           s\<lparr>bidInFlightUntil := None,
             openedBids := pushOpenedBid (openedBidOf item s) (openedBids s)\<rparr>"
proof -
  have eq: "openedBidOf item (s\<lparr>bidInFlightUntil := None\<rparr>) = openedBidOf item s"
    by (rule openedBidOf_frame) simp
  show ?thesis
    unfolding handleOpened_def Let_def using assms by (simp add: eq)
qed

lemma handleOpened_no_uuid_untracked:
  assumes "nullish (o_uuid item) [] = []"
    and "assetRic (openedBidOf item s) = [] \<or> closeAt (openedBidOf item s) = []"
  shows "handleOpened item s = s\<lparr>bidInFlightUntil := None\<rparr>"
proof -
  have eq: "openedBidOf item (s\<lparr>bidInFlightUntil := None\<rparr>) = openedBidOf item s"
    by (rule openedBidOf_frame) simp
  show ?thesis
    unfolding handleOpened_def Let_def using assms by (auto simp: eq)
qed

lemma handleOpened_pending:
  assumes "nullish (o_uuid item) [] \<noteq> []" and "nullish (o_uuid item) [] \<in> set (pendingUUIDs s)"
    and "assetRic (openedBidOf item s) \<noteq> []" and "closeAt (openedBidOf item s) \<noteq> []"
  shows "handleOpened item s =
           s\<lparr>pendingUUIDs := setDelete (nullish (o_uuid item) []) (pendingUUIDs s),
             bidInFlightUntil := None,
             openedBids := pushOpenedBid (openedBidOf item s) (openedBids s)\<rparr>"
proof -
  have eq: "openedBidOf item (s\<lparr>pendingUUIDs := p, bidInFlightUntil := None\<rparr>) = openedBidOf item s" for p
    by (rule openedBidOf_frame) simp
  show ?thesis
    unfolding handleOpened_def Let_def using assms by (simp add: eq)
qed

lemma untracked_fields:
  assumes "(o_asset_ric item = Some [] \<or>
             o_asset_ric item = None \<and> (o_ric item = None \<or> o_ric item = Some [])) \<or>
           (o_close_quote_created_at item = Some [] \<or>
             o_close_quote_created_at item = None \<and>
               (o_finished_at item = None \<or> o_finished_at item = Some []))"
  shows "assetRic (openedBidOf item s) = [] \<or> closeAt (openedBidOf item s) = []"
  using assms by (auto simp: openedBidOf_def Let_def)

text \<open>
  C10. An "opened" event whose uuid is absent or empty passes the pending-uuid filter.
  When its asset ric (\<open>asset_ric\<close>, else \<open>ric\<close>) and its close time
  (\<open>close_quote_created_at\<close>, else \<open>finished_at\<close>) are present and not empty, the bid built
  from the payload is appended at the end of the tracked list, every bid tracked before
  staying in place in front of it (the oldest one is dropped when 50 were tracked
  already), and the in-flight mark is cleared; nothing else changes. When the ric or the
  close time is missing, only the in-flight mark is cleared and no bid is tracked. An
  event with a non-empty uuid that is not in the pending set leaves the whole state as it
  was. One whose uuid is pending is tracked in the same way, with its uuid, and the uuid
  leaves the pending set.
\<close>

theorem opened_without_uuid_is_tracked:
  "((o_uuid item = None \<or> o_uuid item = Some []) \<and>
    (o_asset_ric item = Some ricText \<or> o_asset_ric item = None \<and> o_ric item = Some ricText) \<and>
    ricText \<noteq> [] \<and>
    (o_close_quote_created_at item = Some closeTime \<or>
       o_close_quote_created_at item = None \<and> o_finished_at item = Some closeTime) \<and>
    closeTime \<noteq> [] \<longrightarrow>
    handleSocketEvent s (Opened item) =
      s\<lparr>bidInFlightUntil := None,
        openedBids :=
          (if length (openedBids s) < 50 then openedBids s else tl (openedBids s)) @
          [\<lparr>assetRic = ricText, closeAt = closeTime,
            openRate = (case o_open_rate item of Some r \<Rightarrow> r
                        | None \<Rightarrow> (case o_openRate item of Some r \<Rightarrow> r | None \<Rightarrow> 0)),
            trend = (if o_trend_is_put item then Put else Call),
            uuid = None,
            amount = safeNumber (o_amount item),
            payment = safeNumber (o_payment item),
            dealType = (case o_deal_type_is_real item of
                          Some b \<Rightarrow> if b then WReal else WDemo
                        | None \<Rightarrow> currentWalletType s)\<rparr>]\<rparr>) \<and>
   ((o_uuid item = None \<or> o_uuid item = Some []) \<and>
    ((o_asset_ric item = Some [] \<or>
        o_asset_ric item = None \<and> (o_ric item = None \<or> o_ric item = Some [])) \<or>
     (o_close_quote_created_at item = Some [] \<or>
        o_close_quote_created_at item = None \<and>
          (o_finished_at item = None \<or> o_finished_at item = Some []))) \<longrightarrow>
    handleSocketEvent s (Opened item) = s\<lparr>bidInFlightUntil := None\<rparr>) \<and>
   (o_uuid item = Some u \<and> u \<noteq> [] \<and> u \<notin> set (pendingUUIDs s) \<longrightarrow>
    handleSocketEvent s (Opened item) = s) \<and>
   (o_uuid item = Some u \<and> u \<noteq> [] \<and> u \<in> set (pendingUUIDs s) \<and>
    (o_asset_ric item = Some ricText \<or> o_asset_ric item = None \<and> o_ric item = Some ricText) \<and>
    ricText \<noteq> [] \<and>
    (o_close_quote_created_at item = Some closeTime \<or>
       o_close_quote_created_at item = None \<and> o_finished_at item = Some closeTime) \<and>
    closeTime \<noteq> [] \<longrightarrow>
    handleSocketEvent s (Opened item) =
      s\<lparr>pendingUUIDs := filter (\<lambda>x. x \<noteq> u) (pendingUUIDs s),
        bidInFlightUntil := None,
        openedBids :=
          (if length (openedBids s) < 50 then openedBids s else tl (openedBids s)) @
          [\<lparr>assetRic = ricText, closeAt = closeTime,
            openRate = (case o_open_rate item of Some r \<Rightarrow> r
                        | None \<Rightarrow> (case o_openRate item of Some r \<Rightarrow> r | None \<Rightarrow> 0)),
            trend = (if o_trend_is_put item then Put else Call),
            uuid = Some u,
            amount = safeNumber (o_amount item),
            payment = safeNumber (o_payment item),
            dealType = (case o_deal_type_is_real item of
                          Some b \<Rightarrow> if b then WReal else WDemo
                        | None \<Rightarrow> currentWalletType s)\<rparr>]\<rparr>)"
proof (intro conjI impI)
  assume a: "(o_uuid item = None \<or> o_uuid item = Some []) \<and>
    (o_asset_ric item = Some ricText \<or> o_asset_ric item = None \<and> o_ric item = Some ricText) \<and>
    ricText \<noteq> [] \<and>
    (o_close_quote_created_at item = Some closeTime \<or>
       o_close_quote_created_at item = None \<and> o_finished_at item = Some closeTime) \<and>
    closeTime \<noteq> []"
  then have n: "nullish (o_uuid item) [] = []" by auto
  have r: "o_asset_ric item = Some ricText \<or> o_asset_ric item = None \<and> o_ric item = Some ricText"
    and c: "o_close_quote_created_at item = Some closeTime \<or>
       o_close_quote_created_at item = None \<and> o_finished_at item = Some closeTime"
    using a by blast+
  have un: "(case o_uuid item of None \<Rightarrow> None | Some v \<Rightarrow> if v = [] then None else Some v) = None"
    using a by auto
  note b = openedBidOf_fields[OF r c, of s, unfolded un]
  have p: "assetRic (openedBidOf item s) \<noteq> []" "closeAt (openedBidOf item s) \<noteq> []"
    using a unfolding b by simp_all
  have "handleSocketEvent s (Opened item) = handleOpened item s" by simp
  also note handleOpened_no_uuid[OF n p]
  finally show "handleSocketEvent s (Opened item) =
      s\<lparr>bidInFlightUntil := None,
        openedBids :=
          (if length (openedBids s) < 50 then openedBids s else tl (openedBids s)) @
          [\<lparr>assetRic = ricText, closeAt = closeTime,
            openRate = (case o_open_rate item of Some r \<Rightarrow> r
                        | None \<Rightarrow> (case o_openRate item of Some r \<Rightarrow> r | None \<Rightarrow> 0)),
            trend = (if o_trend_is_put item then Put else Call),
            uuid = None,
            amount = safeNumber (o_amount item),
            payment = safeNumber (o_payment item),
            dealType = (case o_deal_type_is_real item of
                          Some b \<Rightarrow> if b then WReal else WDemo
                        | None \<Rightarrow> currentWalletType s)\<rparr>]\<rparr>"
    unfolding pushOpenedBid_append b .
next
  assume a: "(o_uuid item = None \<or> o_uuid item = Some []) \<and>
    ((o_asset_ric item = Some [] \<or>
        o_asset_ric item = None \<and> (o_ric item = None \<or> o_ric item = Some [])) \<or>
     (o_close_quote_created_at item = Some [] \<or>
        o_close_quote_created_at item = None \<and>
          (o_finished_at item = None \<or> o_finished_at item = Some [])))"
  then have n: "nullish (o_uuid item) [] = []" by auto
  have "assetRic (openedBidOf item s) = [] \<or> closeAt (openedBidOf item s) = []"
    by (rule untracked_fields) (use a in blast)
  from handleOpened_no_uuid_untracked[OF n this]
  show "handleSocketEvent s (Opened item) = s\<lparr>bidInFlightUntil := None\<rparr>" by simp
next
  assume "o_uuid item = Some u \<and> u \<noteq> [] \<and> u \<notin> set (pendingUUIDs s)"
  then show "handleSocketEvent s (Opened item) = s"
    using handleOpened_ignored[of item s] by simp
next
  assume a: "o_uuid item = Some u \<and> u \<noteq> [] \<and> u \<in> set (pendingUUIDs s) \<and>
    (o_asset_ric item = Some ricText \<or> o_asset_ric item = None \<and> o_ric item = Some ricText) \<and>
    ricText \<noteq> [] \<and>
    (o_close_quote_created_at item = Some closeTime \<or>
       o_close_quote_created_at item = None \<and> o_finished_at item = Some closeTime) \<and>
    closeTime \<noteq> []"
  then have n: "nullish (o_uuid item) [] = u" by simp
  have n1: "nullish (o_uuid item) [] \<noteq> []" "nullish (o_uuid item) [] \<in> set (pendingUUIDs s)"
    using a n by simp_all
  have r: "o_asset_ric item = Some ricText \<or> o_asset_ric item = None \<and> o_ric item = Some ricText"
    and c: "o_close_quote_created_at item = Some closeTime \<or>
       o_close_quote_created_at item = None \<and> o_finished_at item = Some closeTime"
    using a by blast+
  have un: "(case o_uuid item of None \<Rightarrow> None | Some v \<Rightarrow> if v = [] then None else Some v) = Some u"
    using a by auto
  note b = openedBidOf_fields[OF r c, of s, unfolded un]
  have p: "assetRic (openedBidOf item s) \<noteq> []" "closeAt (openedBidOf item s) \<noteq> []"
    using a unfolding b by simp_all
  have "handleSocketEvent s (Opened item) = handleOpened item s" by simp
  also note handleOpened_pending[OF n1 p]
  finally show "handleSocketEvent s (Opened item) =
      s\<lparr>pendingUUIDs := filter (\<lambda>x. x \<noteq> u) (pendingUUIDs s),
        bidInFlightUntil := None,
        openedBids :=
          (if length (openedBids s) < 50 then openedBids s else tl (openedBids s)) @
          [\<lparr>assetRic = ricText, closeAt = closeTime,
            openRate = (case o_open_rate item of Some r \<Rightarrow> r
                        | None \<Rightarrow> (case o_openRate item of Some r \<Rightarrow> r | None \<Rightarrow> 0)),
            trend = (if o_trend_is_put item then Put else Call),
            uuid = Some u,
            amount = safeNumber (o_amount item),
            payment = safeNumber (o_payment item),
            dealType = (case o_deal_type_is_real item of
                          Some b \<Rightarrow> if b then WReal else WDemo
                        | None \<Rightarrow> currentWalletType s)\<rparr>]\<rparr>"
    unfolding pushOpenedBid_append b n setDelete_def .
qed

text \<open>
  The five cases at work: an event without uuid is appended behind a bid tracked before;
  with 50 bids tracked the oldest one leaves; an event without uuid and without ric only
  clears the in-flight mark; an event with a uuid that is not pending changes nothing;
  one with a pending uuid is appended and its uuid leaves the pending set.
\<close>

theorem opened_without_uuid_is_tracked_witness:
  "handleSocketEvent (runningEngine\<lparr>openedBids := [earlierPut]\<rparr>) (Opened openedNoUuid) =
     runningEngine\<lparr>bidInFlightUntil := None, openedBids := [earlierPut, trackedCall]\<rparr> \<and>
   openedBids (handleSocketEvent
       (runningEngine\<lparr>openedBids := earlierPut # replicate 49 trackedCall\<rparr>)
       (Opened openedNoUuid)) =
     replicate 49 trackedCall @ [trackedCall] \<and>
   handleSocketEvent (runningEngine\<lparr>bidInFlightUntil := Some 1, openedBids := [earlierPut]\<rparr>)
       (Opened (openedNoUuid\<lparr>o_asset_ric := None\<rparr>)) =
     runningEngine\<lparr>bidInFlightUntil := None, openedBids := [earlierPut]\<rparr> \<and>
   handleSocketEvent (runningEngine\<lparr>pendingUUIDs := [''u6''], openedBids := [earlierPut]\<rparr>)
       (Opened (openedNoUuid\<lparr>o_uuid := Some ''u7''\<rparr>)) =
     runningEngine\<lparr>pendingUUIDs := [''u6''], openedBids := [earlierPut]\<rparr> \<and>
   handleSocketEvent
       (runningEngine\<lparr>pendingUUIDs := [''u6'', ''u7''], openedBids := [earlierPut]\<rparr>)
       (Opened (openedNoUuid\<lparr>o_uuid := Some ''u7''\<rparr>)) =
     runningEngine\<lparr>pendingUUIDs := [''u6''], bidInFlightUntil := None,
       openedBids := [earlierPut, trackedCall\<lparr>uuid := Some ''u7''\<rparr>]\<rparr>"
proof -
  have w1: "handleSocketEvent (runningEngine\<lparr>openedBids := [earlierPut]\<rparr>) (Opened openedNoUuid) =
     runningEngine\<lparr>bidInFlightUntil := None, openedBids := [earlierPut, trackedCall]\<rparr>"
    using opened_without_uuid_is_tracked[where item = openedNoUuid
        and s = "runningEngine\<lparr>openedBids := [earlierPut]\<rparr>"
        and ricText = "''Z-CRY/IDX''" and closeTime = "''2024-01-01T00:01:00Z''"]
    by (simp add: openedNoUuid_def trackedCall_def)
  have w2: "openedBids (handleSocketEvent
       (runningEngine\<lparr>openedBids := earlierPut # replicate 49 trackedCall\<rparr>)
       (Opened openedNoUuid)) =
     replicate 49 trackedCall @ [trackedCall]"
    using opened_without_uuid_is_tracked[where item = openedNoUuid
        and s = "runningEngine\<lparr>openedBids := earlierPut # replicate 49 trackedCall\<rparr>"
        and ricText = "''Z-CRY/IDX''" and closeTime = "''2024-01-01T00:01:00Z''"]
    by (simp add: openedNoUuid_def trackedCall_def)
  have w3: "handleSocketEvent (runningEngine\<lparr>bidInFlightUntil := Some 1, openedBids := [earlierPut]\<rparr>)
       (Opened (openedNoUuid\<lparr>o_asset_ric := None\<rparr>)) =
     runningEngine\<lparr>bidInFlightUntil := None, openedBids := [earlierPut]\<rparr>"
    using opened_without_uuid_is_tracked[where item = "openedNoUuid\<lparr>o_asset_ric := None\<rparr>"
        and s = "runningEngine\<lparr>bidInFlightUntil := Some 1, openedBids := [earlierPut]\<rparr>"]
    by (simp add: openedNoUuid_def)
  have w4: "handleSocketEvent (runningEngine\<lparr>pendingUUIDs := [''u6''], openedBids := [earlierPut]\<rparr>)
       (Opened (openedNoUuid\<lparr>o_uuid := Some ''u7''\<rparr>)) =
     runningEngine\<lparr>pendingUUIDs := [''u6''], openedBids := [earlierPut]\<rparr>"
    using opened_without_uuid_is_tracked[where item = "openedNoUuid\<lparr>o_uuid := Some ''u7''\<rparr>"
        and s = "runningEngine\<lparr>pendingUUIDs := [''u6''], openedBids := [earlierPut]\<rparr>"
        and u = "''u7''"]
    by (simp add: openedNoUuid_def)
  have w5: "handleSocketEvent
       (runningEngine\<lparr>pendingUUIDs := [''u6'', ''u7''], openedBids := [earlierPut]\<rparr>)
       (Opened (openedNoUuid\<lparr>o_uuid := Some ''u7''\<rparr>)) =
     runningEngine\<lparr>pendingUUIDs := [''u6''], bidInFlightUntil := None,
       openedBids := [earlierPut, trackedCall\<lparr>uuid := Some ''u7''\<rparr>]\<rparr>"
    using opened_without_uuid_is_tracked[where item = "openedNoUuid\<lparr>o_uuid := Some ''u7''\<rparr>"
        and s = "runningEngine\<lparr>pendingUUIDs := [''u6'', ''u7''], openedBids := [earlierPut]\<rparr>"
        and u = "''u7''" and ricText = "''Z-CRY/IDX''" and closeTime = "''2024-01-01T00:01:00Z''"]
    by (simp add: openedNoUuid_def trackedCall_def)
  show ?thesis using w1 w2 w3 w4 w5 by blast
qed

end
